theory Spec2Isabelle
  imports Complex_Main
begin

section \<open>The frequency / secondary-structure merge utility\<close>

text \<open>
  Source: \<^verbatim>\<open>scripts/predicted_single_HF_mutations.py\<close>, function \<^verbatim>\<open>merge_data\<close>.
  A parsed line of the frequency file is \<^verbatim>\<open>(ref_aa, highest_freq_aa, freq_val)\<close>, a parsed
  DSSP line is \<^verbatim>\<open>(pos, ref_aa, ss)\<close>, and a merged line is
  \<^verbatim>\<open>(pos_counter, ref_aa_final, highest_freq_aa, freq_val, ss)\<close>.  The frequency value is
  only copied by the merge, so its type is left open.
\<close>

type_synonym 'f freq_entry = "string \<times> string \<times> 'f"
type_synonym dssp_entry = "int \<times> string \<times> string"
type_synonym 'f merged_entry = "int \<times> string \<times> string \<times> 'f \<times> string"

text \<open>
  The loop state is \<^verbatim>\<open>(merged, j, pos_counter)\<close>; one iteration of
  \<^verbatim>\<open>for i in range(len(freq_data))\<close> is \<open>merge_step\<close>.
\<close>

fun merge_step ::
  "dssp_entry list \<Rightarrow> 'f merged_entry list \<times> nat \<times> int \<Rightarrow> 'f freq_entry
    \<Rightarrow> 'f merged_entry list \<times> nat \<times> int" where
  "merge_step dssp_data (merged, j, pos_counter) (ref_aa_freq, highest_freq_aa, freq_val) =
     (if ref_aa_freq = ''X''
      then (merged @ [(pos_counter, ''X'', highest_freq_aa, freq_val, ''NA'')], j, pos_counter + 1)
      else if j < length dssp_data
        then (case dssp_data ! j of (_, dssp_ref, ss) \<Rightarrow>
               (merged @ [(pos_counter, dssp_ref, highest_freq_aa, freq_val, ss)], j + 1,
                pos_counter + 1))
        else (merged @ [(pos_counter, ref_aa_freq, highest_freq_aa, freq_val, ''NA'')], j,
              pos_counter + 1))"

definition merge_data :: "'f freq_entry list \<Rightarrow> dssp_entry list \<Rightarrow> 'f merged_entry list" where
  "merge_data freq_data dssp_data =
     (case foldl (merge_step dssp_data) ([], 0, 1) freq_data of (merged, j, pos_counter) \<Rightarrow> merged)"

text \<open>The number of entries of \<open>freq_data\<close> before index \<open>i\<close> whose reference is not \<^verbatim>\<open>'X'\<close>.\<close>

definition nonX_before :: "'f freq_entry list \<Rightarrow> nat \<Rightarrow> nat" where
  "nonX_before freq_data i = length (filter (\<lambda>e. fst e \<noteq> ''X'') (take i freq_data))"

text \<open>What the merge emits for entry \<open>i\<close>, as a function of the inputs alone.\<close>

definition merged_at :: "'f freq_entry list \<Rightarrow> dssp_entry list \<Rightarrow> nat \<Rightarrow> 'f merged_entry" where
  "merged_at freq_data dssp_data i =
     (case freq_data ! i of (ref_aa_freq, highest_freq_aa, freq_val) \<Rightarrow>
        if ref_aa_freq = ''X'' then (int i + 1, ''X'', highest_freq_aa, freq_val, ''NA'')
        else if nonX_before freq_data i < length dssp_data
          then (case dssp_data ! nonX_before freq_data i of (_, dssp_ref, ss) \<Rightarrow>
                 (int i + 1, dssp_ref, highest_freq_aa, freq_val, ss))
          else (int i + 1, ref_aa_freq, highest_freq_aa, freq_val, ''NA''))"

section \<open>The alignment pre-processing script\<close>

text \<open>
  Source: \<^verbatim>\<open>scripts/pySCA/scaProcessMSA.py\<close>.  The script is one top-level block; the model
  follows it stage by stage.  The functions of \<^verbatim>\<open>scaTools\<close> (imported as \<^verbatim>\<open>sca\<close>) and the file
  system are outside the two source files, so they are parameters of the model, collected in the
  record \<open>collaborators\<close>; a collaborator that raises returns \<open>None\<close>.
\<close>

subsection \<open>Data\<close>

text \<open>
  A position label is a Python \<^verbatim>\<open>int\<close> (default numbering, from \<^verbatim>\<open>range\<close>) or a \<^verbatim>\<open>str\<close> (a line of
  the position file, a structure label, or the gap mark \<^verbatim>\<open>'-'\<close>); Python's \<^verbatim>\<open>==\<close> never equates an
  \<^verbatim>\<open>int\<close> with a \<^verbatim>\<open>str\<close>.
\<close>

datatype label = Num int | Str string

type_synonym matrix = "real list list"

text \<open>
  How a run ends when it does not produce its outputs: one of the two \<^verbatim>\<open>sys.exit\<close> messages, or
  an exception that no handler of the script catches.
\<close>

datatype error =
    Exit_PDB     \<comment> \<open>\<^verbatim>\<open>sys.exit("Error!!! Something wrong with PDBid or path...")\<close>\<close>
  | Exit_NoRef   \<comment> \<open>\<^verbatim>\<open>sys.exit("Error!!  Can't find reference sequence...")\<close>\<close>
  | Uncaught     \<comment> \<open>a traceback\<close>

text \<open>The parsed command line (lines 65--84); \<^verbatim>\<open>--parameters\<close> has \<^verbatim>\<open>nargs=4\<close>.\<close>

record options =
  pdbid :: "string option"
  chainID :: string
  species :: "string option"
  refseq :: "string option"
  refpos :: "string option"
  i_ref :: "int option"
  parameters :: "real \<times> real \<times> real \<times> real"
  Nselect :: bool
  truncate_flag :: bool   \<comment> \<open>\<^verbatim>\<open>options.truncate\<close>\<close>

record collaborators =
  readAlg :: "string \<Rightarrow> (string list \<times> string list) option"
  pdbSeq :: "string \<Rightarrow> string \<Rightarrow> (string \<times> label list \<times> matrix) option"
  MSAsearch :: "string list \<Rightarrow> string list \<Rightarrow> string \<Rightarrow> string option \<Rightarrow> int option"
  chooseRefSeq :: "string list \<Rightarrow> int option"
  makeATS :: "string list \<Rightarrow> label list \<Rightarrow> string \<Rightarrow> int \<Rightarrow> bool
               \<Rightarrow> (string list \<times> label list) option"
  filterSeq :: "string list \<Rightarrow> int \<Rightarrow> real \<Rightarrow> real \<Rightarrow> real
                 \<Rightarrow> (string list \<times> real list \<times> nat list) option"
  filterPos :: "string list \<Rightarrow> real list \<Rightarrow> real \<Rightarrow> (string list \<times> nat list) option"
  randSel :: "real list \<Rightarrow> int \<Rightarrow> nat list \<Rightarrow> nat list option"
  read_lines :: "string \<Rightarrow> string list option"
    \<comment> \<open>\<^verbatim>\<open>open(path,'r')\<close> and iteration over the file: its lines, terminators included\<close>
  np_sum :: "real list \<Rightarrow> real option"
    \<comment> \<open>\<^verbatim>\<open>seqw0.sum()\<close>: the float64 sum as numpy rounds it; \<open>None\<close> when it is not finite\<close>
  float_times :: "real \<Rightarrow> int \<Rightarrow> real option"
    \<comment> \<open>\<^verbatim>\<open>x * n\<close> for a float and an \<^verbatim>\<open>int\<close>, as float64 rounds it; \<open>None\<close> when it is not finite\<close>

text \<open>What reference resolution leaves in the variables \<^verbatim>\<open>i_ref\<close>, \<^verbatim>\<open>sequences\<close>, \<^verbatim>\<open>ats\<close> and
  \<^verbatim>\<open>dist_pdb\<close> (\<open>None\<close>: the name \<^verbatim>\<open>dist_pdb\<close> is not bound).\<close>

record resolved =
  r_i_ref :: int
  r_sequences :: "string list"
  r_ats :: "label list"
  r_dist_pdb :: "matrix option"

text \<open>The variables the export (lines 284--335) reads, up to the down-selection.\<close>

record exported =
  out_alg :: "string list"
  out_hd :: "string list"
  out_ats :: "label list"
  out_distmat :: "matrix option"
  out_i_ref :: int
  out_effseqsprelimit :: int
  out_Nseqprelimit :: nat

subsection \<open>Python primitives\<close>

text \<open>\<^verbatim>\<open>xs[i]\<close> for an \<^verbatim>\<open>int\<close> index: a negative index counts from the end, \<open>None\<close> is IndexError.\<close>

definition py_get :: "'a list \<Rightarrow> int \<Rightarrow> 'a option" where
  "py_get xs i =
     (if 0 \<le> i \<and> i < int (length xs) then Some (xs ! nat i)
      else if i < 0 \<and> - int (length xs) \<le> i then Some (xs ! nat (int (length xs) + i))
      else None)"

text \<open>\<^verbatim>\<open>xs.index(y)\<close>: the first position of \<open>y\<close>, \<open>None\<close> is ValueError.\<close>

fun index_of :: "'a list \<Rightarrow> 'a \<Rightarrow> nat option" where
  "index_of [] y = None"
| "index_of (x # xs) y = (if x = y then Some 0 else map_option Suc (index_of xs y))"

text \<open>\<^verbatim>\<open>[xs[i] for i in idx]\<close> for non-negative indices, \<open>None\<close> is IndexError.\<close>

definition reslice :: "'a list \<Rightarrow> nat list \<Rightarrow> 'a list option" where
  "reslice xs idx =
     (if list_all (\<lambda>i. i < length xs) idx then Some (map (\<lambda>i. xs ! i) idx) else None)"

text \<open>\<^verbatim>\<open>len(seqs[0])\<close>, \<open>None\<close> is IndexError.\<close>

fun ncols :: "string list \<Rightarrow> nat option" where
  "ncols [] = None"
| "ncols (s # rest) = Some (length s)"

text \<open>\<^verbatim>\<open>range(n)\<close> as position labels.\<close>

definition range_labels :: "nat \<Rightarrow> label list" where
  "range_labels n = map (\<lambda>i. Num (int i)) [0..<n]"

text \<open>\<^verbatim>\<open>line.rstrip('\n')\<close>.\<close>

definition rstrip_nl :: "string \<Rightarrow> string" where
  "rstrip_nl line = rev (dropWhile (\<lambda>c. c = CHR 0x0A) (rev line))"

text \<open>\<^verbatim>\<open>int(x)\<close> on a float: truncation towards zero.\<close>

definition py_int :: "real \<Rightarrow> int" where
  "py_int x = (if 0 \<le> x then \<lfloor>x\<rfloor> else \<lceil>x\<rceil>)"

text \<open>\<^verbatim>\<open>D[a, b]\<close> on a two-dimensional array with non-negative indices.\<close>

definition mat_get :: "matrix \<Rightarrow> nat \<Rightarrow> nat \<Rightarrow> real option" where
  "mat_get D a b = (if a < length D \<and> b < length (D ! a) then Some (D ! a ! b) else None)"

text \<open>The second dimension of an array stored as its rows.\<close>

fun mat_cols :: "matrix \<Rightarrow> nat" where
  "mat_cols [] = 0"
| "mat_cols (row # rows) = length row"

text \<open>\<^verbatim>\<open>D[np.ix_(idx, idx)]\<close>: the rows \<open>idx\<close> and, of each, the columns \<open>idx\<close>; \<open>None\<close> is IndexError.\<close>

definition ix_select :: "matrix \<Rightarrow> nat list \<Rightarrow> matrix option" where
  "ix_select D idx =
     (if list_all (\<lambda>i. i < length D \<and> i < mat_cols D) idx
      then Some (map (\<lambda>a. map (\<lambda>b. D ! a ! b) idx) idx) else None)"

subsection \<open>Lines 92--108: feedback on the options\<close>

definition preamble :: "options \<Rightarrow> options" where
  "preamble opts =
     (if i_ref opts = None then
        (let o1 = (if species opts \<noteq> None \<and> pdbid opts = None
                   then opts\<lparr>species := None\<rparr> else opts);
             o2 = (if refseq o1 \<noteq> None \<and> refpos o1 = None \<and> pdbid o1 \<noteq> None
                   then o1\<lparr>pdbid := None\<rparr> else o1);
             o3 = (if refseq o2 \<noteq> None \<and> refpos o2 \<noteq> None \<and> pdbid o2 \<noteq> None
                   then o2\<lparr>pdbid := None\<rparr> else o2)
         in o3)
      else opts)"

subsection \<open>Lines 114--129: sequences with non-standard amino acids\<close>

definition standard_aa :: "char \<Rightarrow> bool" where
  "standard_aa aa = (aa \<in> set ''ACDEFGHIKLMNPQRSTVWY-'')"

text \<open>The inner loop: \<^verbatim>\<open>flag\<close> after scanning the sequence \<open>k\<close>, leaving at the first hit.\<close>

fun flag_of :: "string \<Rightarrow> nat" where
  "flag_of [] = 0"
| "flag_of (aa # k) = (if \<not> standard_aa aa then 1 else flag_of k)"

text \<open>The outer loop over \<^verbatim>\<open>enumerate(sequences_full)\<close>, with state \<^verbatim>\<open>(alg_out, hd_out)\<close>.\<close>

fun remove_loop ::
  "string list \<Rightarrow> nat \<Rightarrow> string list \<Rightarrow> string list \<times> string list
    \<Rightarrow> error + (string list \<times> string list)" where
  "remove_loop headers_full i [] (alg_out, hd_out) = Inr (alg_out, hd_out)"
| "remove_loop headers_full i (k # rest) (alg_out, hd_out) =
     (if flag_of k = 0 then
        (if i < length headers_full
         then remove_loop headers_full (i + 1) rest (alg_out @ [k], hd_out @ [headers_full ! i])
         else Inl Uncaught)
      else remove_loop headers_full (i + 1) rest (alg_out, hd_out))"

text \<open>The new \<^verbatim>\<open>(headers_full, sequences_full)\<close>.\<close>

definition remove_nonstandard ::
  "string list \<Rightarrow> string list \<Rightarrow> error + (string list \<times> string list)" where
  "remove_nonstandard headers_full sequences_full =
     (case remove_loop headers_full 0 sequences_full ([], []) of
        Inl e \<Rightarrow> Inl e
      | Inr (alg_out, hd_out) \<Rightarrow> Inr (hd_out, alg_out))"

subsection \<open>Lines 143--167: the reference sequence of a structure\<close>

text \<open>
  One \<^verbatim>\<open>try\<close> body: the search, then the three \<^verbatim>\<open>print\<close>s, which read \<^verbatim>\<open>headers_full[i_ref]\<close> and
  \<^verbatim>\<open>sequences_full[i_ref]\<close>.  \<open>None\<close>: the body raised.
\<close>

definition search_ref ::
  "collaborators \<Rightarrow> string list \<Rightarrow> string list \<Rightarrow> string \<Rightarrow> string option \<Rightarrow> int option" where
  "search_ref env headers_full sequences_full seq_pdb sp =
     (case MSAsearch env headers_full sequences_full seq_pdb sp of
        None \<Rightarrow> None
      | Some i \<Rightarrow>
          (case py_get headers_full i of
             None \<Rightarrow> None
           | Some h \<Rightarrow> (case py_get sequences_full i of None \<Rightarrow> None | Some q \<Rightarrow> Some i)))"

definition find_ref_pdb ::
  "collaborators \<Rightarrow> string list \<Rightarrow> string list \<Rightarrow> string \<Rightarrow> string option \<Rightarrow> error + int" where
  "find_ref_pdb env headers_full sequences_full seq_pdb sp =
     (case sp of
        Some s \<Rightarrow>
          (case search_ref env headers_full sequences_full seq_pdb (Some s) of
             Some i \<Rightarrow> Inr i
           | None \<Rightarrow>
               (case search_ref env headers_full sequences_full seq_pdb None of
                  Some i \<Rightarrow> Inr i
                | None \<Rightarrow> Inl Exit_NoRef))
      | None \<Rightarrow>
          (case search_ref env headers_full sequences_full seq_pdb None of
             Some i \<Rightarrow> Inr i
           | None \<Rightarrow> Inl Exit_NoRef))"

subsection \<open>Lines 170--180: the distance matrix over the alignment columns\<close>

text \<open>
  The body of the double loop for the pair \<^verbatim>\<open>(j, pos1)\<close>, \<^verbatim>\<open>(k, pos2)\<close>: the value stored in
  \<^verbatim>\<open>dist_new[j,k]\<close>, or what \<^verbatim>\<open>np.zeros\<close> left there.  \<open>None\<close>: \<^verbatim>\<open>ats_pdb.index\<close> or the read of
  \<^verbatim>\<open>dist_pdb\<close> raised.
\<close>

definition remap_entry :: "label list \<Rightarrow> matrix \<Rightarrow> nat \<times> label \<Rightarrow> nat \<times> label \<Rightarrow> real option" where
  "remap_entry ats_pdb dist_pdb p1 p2 =
     (case p1 of (j, pos1) \<Rightarrow> case p2 of (k, pos2) \<Rightarrow>
        if k \<noteq> j then
          (if pos1 = Str ''-'' \<or> pos2 = Str ''-'' then Some 1000
           else
             (case index_of ats_pdb pos1 of
                None \<Rightarrow> None
              | Some ix_j \<Rightarrow>
                  (case index_of ats_pdb pos2 of
                     None \<Rightarrow> None
                   | Some ix_k \<Rightarrow> mat_get dist_pdb ix_j ix_k)))
        else Some 0)"

definition remap_dist :: "label list \<Rightarrow> label list \<Rightarrow> matrix \<Rightarrow> matrix option" where
  "remap_dist ats ats_pdb dist_pdb =
     those (map (\<lambda>p1. those (map (\<lambda>p2. remap_entry ats_pdb dist_pdb p1 p2) (enumerate 0 ats)))
                (enumerate 0 ats))"

subsection \<open>Lines 139--222: the four ways to a reference\<close>

text \<open>Lines 140--182, with a structure identifier.  The bare \<^verbatim>\<open>except\<close> of line 181 also catches
  the \<^verbatim>\<open>SystemExit\<close> of lines 158 and 167.\<close>

definition resolve_pdb ::
  "collaborators \<Rightarrow> options \<Rightarrow> string \<Rightarrow> string list \<Rightarrow> string list \<Rightarrow> error + resolved" where
  "resolve_pdb env opts pid headers_full sequences_full =
     (case pdbSeq env pid (chainID opts) of
        None \<Rightarrow> Inl Exit_PDB
      | Some (seq_pdb, ats_pdb, dist_pdb) \<Rightarrow>
          (case find_ref_pdb env headers_full sequences_full seq_pdb (species opts) of
             Inl e \<Rightarrow> Inl Exit_PDB
           | Inr i \<Rightarrow>
               (case makeATS env sequences_full ats_pdb seq_pdb i (truncate_flag opts) of
                  None \<Rightarrow> Inl Exit_PDB
                | Some (sequences, ats) \<Rightarrow>
                    (case remap_dist ats ats_pdb dist_pdb of
                       None \<Rightarrow> Inl Exit_PDB
                     | Some dist_new \<Rightarrow>
                         Inr \<lparr>r_i_ref = i, r_sequences = sequences, r_ats = ats,
                              r_dist_pdb = Some dist_new\<rparr>))))"

text \<open>Lines 190--199: the position labels of the reference-sequence branch.  \<open>None\<close>:
  \<^verbatim>\<open>sequences_full[0]\<close> raised.\<close>

definition refseq_positions :: "collaborators \<Rightarrow> options \<Rightarrow> string list \<Rightarrow> label list option" where
  "refseq_positions env opts sequences_full =
     (case refpos opts of
        Some f \<Rightarrow>
          (case read_lines env f of
             Some ls \<Rightarrow> Some (map (\<lambda>line. Str (rstrip_nl line)) ls)
           | None \<Rightarrow> map_option range_labels (ncols sequences_full))
      | None \<Rightarrow> map_option range_labels (ncols sequences_full))"

text \<open>Lines 183--202, with a reference-sequence file.\<close>

definition resolve_refseq ::
  "collaborators \<Rightarrow> options \<Rightarrow> string \<Rightarrow> string list \<Rightarrow> string list \<Rightarrow> error + resolved" where
  "resolve_refseq env opts path headers_full sequences_full =
     (case readAlg env path of
        None \<Rightarrow> Inl Exit_NoRef
      | Some (h_tmp, s_tmp) \<Rightarrow>
          (case s_tmp of
             [] \<Rightarrow> Inl Exit_NoRef
           | s0 # others \<Rightarrow>
               (case MSAsearch env headers_full sequences_full s0 None of
                  None \<Rightarrow> Inl Exit_NoRef
                | Some i \<Rightarrow>
                    (case py_get headers_full i of
                       None \<Rightarrow> Inl Exit_NoRef
                     | Some h \<Rightarrow>
                         (case refseq_positions env opts sequences_full of
                            None \<Rightarrow> Inl Exit_NoRef
                          | Some ats_tmp \<Rightarrow>
                              (case makeATS env sequences_full ats_tmp s0 i (truncate_flag opts) of
                                 None \<Rightarrow> Inl Exit_NoRef
                               | Some (sequences, ats) \<Rightarrow>
                                   Inr \<lparr>r_i_ref = i, r_sequences = sequences, r_ats = ats,
                                        r_dist_pdb = None\<rparr>))))))"

text \<open>Lines 204--208, no hint at all.\<close>

definition resolve_auto ::
  "collaborators \<Rightarrow> string list \<Rightarrow> string list \<Rightarrow> error + resolved" where
  "resolve_auto env headers_full sequences_full =
     (case chooseRefSeq env sequences_full of
        None \<Rightarrow> Inl Uncaught
      | Some i \<Rightarrow>
          (case py_get headers_full i of
             None \<Rightarrow> Inl Uncaught
           | Some h \<Rightarrow>
               (case ncols sequences_full of
                  None \<Rightarrow> Inl Uncaught
                | Some n \<Rightarrow>
                    Inr \<lparr>r_i_ref = i, r_sequences = sequences_full, r_ats = range_labels n,
                         r_dist_pdb = None\<rparr>)))"

text \<open>Lines 215--219: the position labels of the explicit-index branch.  \<open>None\<close>: the \<^verbatim>\<open>open\<close>,
  the read or \<^verbatim>\<open>sequences_ori[0]\<close> raised.\<close>

definition index_positions :: "collaborators \<Rightarrow> options \<Rightarrow> string list \<Rightarrow> label list option" where
  "index_positions env opts sequences_ori =
     (case refpos opts of
        Some f \<Rightarrow> map_option (map (\<lambda>line. Str (rstrip_nl line))) (read_lines env f)
      | None \<Rightarrow> map_option range_labels (ncols sequences_ori))"

text \<open>Lines 209--222, with an explicit index.  Lines 212 and 213 stand before the \<^verbatim>\<open>try\<close>.\<close>

definition resolve_index ::
  "collaborators \<Rightarrow> options \<Rightarrow> int \<Rightarrow> string list \<Rightarrow> string list \<Rightarrow> string list
    \<Rightarrow> error + resolved" where
  "resolve_index env opts i headers_full sequences_ori sequences_full =
     (case py_get headers_full i of
        None \<Rightarrow> Inl Uncaught
      | Some h \<Rightarrow>
          (case py_get sequences_ori i of
             None \<Rightarrow> Inl Uncaught
           | Some s_tmp \<Rightarrow>
               (case index_positions env opts sequences_ori of
                  None \<Rightarrow> Inl Exit_NoRef
                | Some ats_tmp \<Rightarrow>
                    (case makeATS env sequences_full ats_tmp s_tmp i (truncate_flag opts) of
                       None \<Rightarrow> Inl Exit_NoRef
                     | Some (sequences, ats) \<Rightarrow>
                         Inr \<lparr>r_i_ref = i, r_sequences = sequences, r_ats = ats,
                              r_dist_pdb = None\<rparr>))))"

definition resolve ::
  "collaborators \<Rightarrow> options \<Rightarrow> string list \<Rightarrow> string list \<Rightarrow> string list \<Rightarrow> error + resolved" where
  "resolve env opts headers_full sequences_ori sequences_full =
     (case i_ref opts of
        None \<Rightarrow>
          (case pdbid opts of
             Some pid \<Rightarrow> resolve_pdb env opts pid headers_full sequences_full
           | None \<Rightarrow>
               (case refseq opts of
                  Some path \<Rightarrow> resolve_refseq env opts path headers_full sequences_full
                | None \<Rightarrow> resolve_auto env headers_full sequences_full))
      | Some i \<Rightarrow> resolve_index env opts i headers_full sequences_ori sequences_full)"

subsection \<open>Lines 225--266: filtering and down-selection\<close>

text \<open>Lines 244--252: the labels and the distance matrix of the kept columns.  The bare
  \<^verbatim>\<open>except\<close> of line 251 turns an unbound \<^verbatim>\<open>dist_pdb\<close> and a failed selection alike into
  \<^verbatim>\<open>distmat = None\<close>.\<close>

definition distmat_of :: "matrix option \<Rightarrow> nat list \<Rightarrow> matrix option" where
  "distmat_of dist_pdb iposkeep =
     (case dist_pdb of None \<Rightarrow> None | Some D \<Rightarrow> ix_select D iposkeep)"

text \<open>
  Line 254, \<^verbatim>\<open>int(seqw0.sum())\<close>.  A weight is the real number a float64 stands for; the sum is
  the one numpy computes, rounding included, so it is the collaborator \<open>np_sum\<close> and not
  the exact sum of the reals.  \<^verbatim>\<open>int\<close> of a finite float is exact; on an infinity or a NaN it
  raises (\<open>None\<close>).
\<close>

definition effseqsprelimit_of :: "collaborators \<Rightarrow> real list \<Rightarrow> int option" where
  "effseqsprelimit_of env seqw0 = map_option py_int (np_sum env seqw0)"

text \<open>
  Line 261: the count asked of \<^verbatim>\<open>randSel\<close>, \<^verbatim>\<open>int(1.5 * effseqsprelimit)\<close>, and the indices it is
  told to keep, \<^verbatim>\<open>[seqkeep.index(i_ref)] if i_ref in seqkeep else []\<close>.  The float64 product
  \<open>1.5 * n\<close> is exact when \<open>3 * n\<close> has at most 53 bits; beyond, it is what the float unit
  returns (\<open>None\<close>: not finite, \<^verbatim>\<open>int\<close> raises).
\<close>

definition select_count :: "collaborators \<Rightarrow> int \<Rightarrow> int option" where
  "select_count env effseqsprelimit =
     (if \<bar>3 * effseqsprelimit\<bar> < 2 ^ 53
      then Some (py_int (1.5 * real_of_int effseqsprelimit))
      else map_option py_int (float_times env 1.5 effseqsprelimit))"

definition keep_list :: "nat list \<Rightarrow> int \<Rightarrow> nat list" where
  "keep_list seqkeep iref =
     (case index_of (map int seqkeep) iref of Some p \<Rightarrow> [p] | None \<Rightarrow> [])"

text \<open>Lines 260--266.\<close>

definition down_select ::
  "collaborators \<Rightarrow> options \<Rightarrow> string list \<Rightarrow> string list \<Rightarrow> real list \<Rightarrow> nat list \<Rightarrow> int \<Rightarrow> int
    \<Rightarrow> error + (string list \<times> string list)" where
  "down_select env opts alg1 headers seqw0 seqkeep iref effseqsprelimit =
     (if Nselect opts then
        (case select_count env effseqsprelimit of
           None \<Rightarrow> Inl Uncaught
         | Some count \<Rightarrow>
        (case randSel env seqw0 count (keep_list seqkeep iref) of
           None \<Rightarrow> Inl Uncaught
         | Some seqsel \<Rightarrow>
             (case reslice alg1 seqsel of
                None \<Rightarrow> Inl Uncaught
              | Some alg \<Rightarrow>
                  (case reslice headers seqsel of
                     None \<Rightarrow> Inl Uncaught
                   | Some hd' \<Rightarrow> Inr (alg, hd')))))
      else Inr (alg1, headers))"

text \<open>Lines 245--252: \<^verbatim>\<open>alg1\<close>, \<^verbatim>\<open>iposkeep\<close>, the new \<^verbatim>\<open>ats\<close> and \<^verbatim>\<open>distmat\<close>.\<close>

definition position_filter ::
  "collaborators \<Rightarrow> real \<Rightarrow> string list \<Rightarrow> real list \<Rightarrow> label list \<Rightarrow> matrix option
    \<Rightarrow> error + (string list \<times> nat list \<times> label list \<times> matrix option)" where
  "position_filter env p0 alg0 seqw0 ats dist_pdb =
     (case filterPos env alg0 seqw0 p0 of
        None \<Rightarrow> Inl Uncaught
      | Some (alg1, iposkeep) \<Rightarrow>
          (case reslice ats iposkeep of
             None \<Rightarrow> Inl Uncaught
           | Some ats' \<Rightarrow> Inr (alg1, iposkeep, ats', distmat_of dist_pdb iposkeep)))"

text \<open>Lines 225--266.  After resolution \<^verbatim>\<open>i_ref\<close> is always an \<^verbatim>\<open>int\<close>, so line 233 takes its
  first branch.  The \<^verbatim>\<open>print\<close>s of lines 225 and 257 read \<^verbatim>\<open>sequences[0]\<close> and \<^verbatim>\<open>alg1[0]\<close>;
  line 254 stands between the position filter and the second of them.\<close>

definition filter_and_select ::
  "collaborators \<Rightarrow> options \<Rightarrow> string list \<Rightarrow> resolved \<Rightarrow> error + exported" where
  "filter_and_select env opts headers_full r =
     (case ncols (r_sequences r) of
        None \<Rightarrow> Inl Uncaught
      | Some n \<Rightarrow>
     (case parameters opts of (p0, p1, p2, p3) \<Rightarrow>
     (case filterSeq env (r_sequences r) (r_i_ref r) p1 p2 p3 of
        None \<Rightarrow> Inl Uncaught
      | Some (alg0, seqw0, seqkeep) \<Rightarrow>
     (case reslice headers_full seqkeep of
        None \<Rightarrow> Inl Uncaught
      | Some headers \<Rightarrow>
     (case position_filter env p0 alg0 seqw0 (r_ats r) (r_dist_pdb r) of
        Inl e \<Rightarrow> Inl e
      | Inr (alg1, iposkeep, ats, distmat) \<Rightarrow>
     (case effseqsprelimit_of env seqw0 of
        None \<Rightarrow> Inl Uncaught
      | Some effseqsprelimit \<Rightarrow>
     (case ncols alg1 of
        None \<Rightarrow> Inl Uncaught
      | Some n1 \<Rightarrow>
     (case down_select env opts alg1 headers seqw0 seqkeep (r_i_ref r) effseqsprelimit of
        Inl e \<Rightarrow> Inl e
      | Inr (alg, hd') \<Rightarrow>
          Inr \<lparr>out_alg = alg, out_hd = hd', out_ats = ats, out_distmat = distmat,
               out_i_ref = r_i_ref r,
               out_effseqsprelimit = effseqsprelimit,
               out_Nseqprelimit = length alg1\<rparr>))))))))"

subsection \<open>The script, from the loaded alignment to the variables it exports\<close>

text \<open>\<open>headers_in\<close> and \<open>sequences_in\<close> are what \<^verbatim>\<open>sca.readAlg(options.alignment)\<close> returned
  (line 111); line 112 reads \<^verbatim>\<open>sequences_full[0]\<close>, line 133 trims the columns, line 136 reads
  \<^verbatim>\<open>sequences_full[0]\<close> again.\<close>

definition run ::
  "collaborators \<Rightarrow> options \<Rightarrow> string list \<Rightarrow> string list \<Rightarrow> error + exported" where
  "run env options0 headers_in sequences_in =
     (case ncols sequences_in of
        None \<Rightarrow> Inl Uncaught
      | Some n \<Rightarrow>
     (case remove_nonstandard headers_in sequences_in of
        Inl e \<Rightarrow> Inl e
      | Inr (headers_full, sequences_ori) \<Rightarrow>
     (case filterPos env sequences_ori [1] 0.8 of
        None \<Rightarrow> Inl Uncaught
      | Some (sequences_full, poskeep) \<Rightarrow>
     (case ncols sequences_full of
        None \<Rightarrow> Inl Uncaught
      | Some n' \<Rightarrow>
     (case resolve env (preamble options0) headers_full sequences_ori sequences_full of
        Inl e \<Rightarrow> Inl e
      | Inr r \<Rightarrow> filter_and_select env (preamble options0) headers_full r)))))"

subsection \<open>The random selector\<close>

text \<open>
  Modelled from the spec: \<^verbatim>\<open>randSel\<close> is a function of \<^verbatim>\<open>scaTools\<close>, whose source is not among
  the source files.  The spec (4.4, 6) gives \<^verbatim>\<open>randomSubselect(weights, targetCount,
  mustKeepIndices) -> keptIndices\<close>: the must-keep indices are forced into the kept set, and
  the others are drawn from the remaining sequences, uniformly, without replacement and
  whatever their weights, up to the target count.  The random choices are the parameter
  \<open>draw\<close>: the \<open>t\<close>-th draw picks the remaining index at position \<open>draw t\<close> modulo the number
  of remaining ones.
\<close>

fun pick_remaining :: "(nat \<Rightarrow> nat) \<Rightarrow> nat \<Rightarrow> nat list \<Rightarrow> nat \<Rightarrow> nat list" where
  "pick_remaining draw t remaining 0 = []"
| "pick_remaining draw t [] (Suc m) = []"
| "pick_remaining draw t (r # rs) (Suc m) =
     (r # rs) ! (draw t mod length (r # rs)) #
       pick_remaining draw (Suc t)
         (take (draw t mod length (r # rs)) (r # rs) @
          drop (Suc (draw t mod length (r # rs))) (r # rs)) m"

definition spec_randSel :: "(nat \<Rightarrow> nat) \<Rightarrow> real list \<Rightarrow> int \<Rightarrow> nat list \<Rightarrow> nat list option" where
  "spec_randSel draw weights targetCount mustKeep =
     Some (mustKeep @
           pick_remaining draw 0 (filter (\<lambda>i. i \<notin> set mustKeep) [0..<length weights])
             (nat targetCount - length mustKeep))"

subsection \<open>Example collaborators\<close>

text \<open>
  Closed evaluations of the model need concrete collaborators.  \<open>no_collaborators\<close> raises on
  every call (every file is missing, every search fails); an evaluation replaces the fields
  it needs.
\<close>

definition no_collaborators :: collaborators where
  "no_collaborators =
     \<lparr>readAlg = (\<lambda>path. None),
      pdbSeq = (\<lambda>pid chain. None),
      MSAsearch = (\<lambda>hd' algn q sp. None),
      chooseRefSeq = (\<lambda>algn. None),
      makeATS = (\<lambda>algn pos q i t. None),
      filterSeq = (\<lambda>algn i g lo hi. None),
      filterPos = (\<lambda>algn w g. None),
      randSel = (\<lambda>w n keep. None),
      read_lines = (\<lambda>path. None),
      np_sum = (\<lambda>w. None),
      float_times = (\<lambda>x n. None)\<rparr>"

text \<open>The command line with no flag given (the defaults of lines 67--83).\<close>

definition default_options :: options where
  "default_options =
     \<lparr>pdbid = None, chainID = ''A'', species = None, refseq = None, refpos = None,
      i_ref = None, parameters = (0.2, 0.2, 0.2, 0.8), Nselect = False,
      truncate_flag = False\<rparr>"

text \<open>A sequence filter and a position filter that keep everything, with unit weights.\<close>

definition keep_all_seqs ::
  "string list \<Rightarrow> int \<Rightarrow> real \<Rightarrow> real \<Rightarrow> real \<Rightarrow> (string list \<times> real list \<times> nat list) option" where
  "keep_all_seqs algn i g lo hi = Some (algn, map (\<lambda>q. 1) algn, [0..<length algn])"

definition keep_all_pos :: "string list \<Rightarrow> real list \<Rightarrow> real \<Rightarrow> (string list \<times> nat list) option" where
  "keep_all_pos algn w g = Some (algn, [0..<(case algn of [] \<Rightarrow> 0 | q # qs \<Rightarrow> length q)])"

text \<open>The float64 sum of weights whose partial sums are all representable, as the halves
  and units of the evaluations are: there numpy's sum is the exact one.\<close>

definition exact_sum :: "real list \<Rightarrow> real option" where
  "exact_sum w = Some (sum_list w)"

text \<open>What the builder of the alignment-to-structure map returns for a reference without
  gaps when nothing is truncated: the alignment as it is, and the labels as given.\<close>

definition gapfree_makeATS ::
  "string list \<Rightarrow> label list \<Rightarrow> string \<Rightarrow> int \<Rightarrow> bool \<Rightarrow> (string list \<times> label list) option" where
  "gapfree_makeATS algn pos q i t = Some (algn, pos)"

section \<open>Auxiliary lemmas\<close>

subsection \<open>The invariant of the merge loop\<close>

lemma nonX_before_snoc_lt:
  "i < length xs \<Longrightarrow> nonX_before (xs @ [x]) i = nonX_before xs i"
  by (simp add: nonX_before_def)

lemma nonX_before_all:
  "nonX_before (xs @ [x]) (length xs) = length (filter (\<lambda>e. fst e \<noteq> ''X'') xs)"
  by (simp add: nonX_before_def)

lemma merged_at_snoc_lt:
  "i < length xs \<Longrightarrow> merged_at (xs @ [x]) d i = merged_at xs d i"
  by (simp add: merged_at_def nonX_before_snoc_lt nth_append split: prod.splits)

lemma merge_loop_invariant:
  "foldl (merge_step d) ([], 0, 1) xs = (m, j, pc) \<Longrightarrow>
     length m = length xs \<and> pc = int (length xs) + 1 \<and>
     j = min (length (filter (\<lambda>e. fst e \<noteq> ''X'') xs)) (length d) \<and>
     (\<forall>i < length xs. m ! i = merged_at xs d i)"
proof (induction xs arbitrary: m j pc rule: rev_induct)
  case Nil
  then show ?case by simp
next
  case (snoc x xs)
  obtain m0 j0 pc0 where st: "foldl (merge_step d) ([], 0, 1) xs = (m0, j0, pc0)"
    by (cases "foldl (merge_step d) ([], 0, 1) xs") auto
  from snoc.IH [OF st] have
    len: "length m0 = length xs" and pc0: "pc0 = int (length xs) + 1" and
    j0: "j0 = min (length (filter (\<lambda>e. fst e \<noteq> ''X'') xs)) (length d)" and
    old: "\<forall>i < length xs. m0 ! i = merged_at xs d i"
    by simp_all
  obtain r hf fv where x: "x = (r, hf, fv)" by (cases x) auto
  from snoc.prems st x have step: "merge_step d (m0, j0, pc0) (r, hf, fv) = (m, j, pc)"
    by simp
  have lt: "j0 < length d \<longleftrightarrow> length (filter (\<lambda>e. fst e \<noteq> ''X'') xs) < length d"
    using j0 by auto
  have j0eq: "j0 < length d \<Longrightarrow> j0 = length (filter (\<lambda>e. fst e \<noteq> ''X'') xs)"
    using j0 by auto
  obtain e where m: "m = m0 @ [e]" and e: "e = merged_at (xs @ [x]) d (length xs)"
    and pc: "pc = pc0 + 1"
    and j: "j = (if r \<noteq> ''X'' \<and> j0 < length d then j0 + 1 else j0)"
    using step x lt j0eq pc0
    by (auto simp: merged_at_def nonX_before_all split: if_splits prod.splits)
  have "m ! i = merged_at (xs @ [x]) d i" if "i < length (xs @ [x])" for i
  proof (cases "i < length xs")
    case True
    then show ?thesis using m len old by (simp add: nth_append merged_at_snoc_lt)
  next
    case False
    with that have "i = length xs" by simp
    then show ?thesis using m e len by (simp add: nth_append)
  qed
  moreover have "j = min (length (filter (\<lambda>e. fst e \<noteq> ''X'') (xs @ [x]))) (length d)"
    using j j0 x by auto
  ultimately show ?case using m len pc pc0 by simp
qed

subsection \<open>Lists of results\<close>

lemma those_map_Some:
  "those (map f xs) = Some ys \<Longrightarrow>
     length ys = length xs \<and> (\<forall>i < length xs. f (xs ! i) = Some (ys ! i))"
proof (induction xs arbitrary: ys)
  case Nil
  then show ?case by simp
next
  case (Cons x xs)
  then obtain y ys' where fx: "f x = Some y" and rest: "those (map f xs) = Some ys'"
    and ys: "ys = y # ys'"
    by (auto split: option.splits)
  from Cons.IH [OF rest] show ?case
    using fx ys by (auto simp: nth_Cons split: nat.splits)
qed

lemma those_map_total:
  "list_all (\<lambda>x. f x \<noteq> None) xs \<Longrightarrow> \<exists>ys. those (map f xs) = Some ys"
  by (induction xs) auto

lemma index_of_Some:
  "index_of xs y = Some i \<Longrightarrow> i < length xs \<and> xs ! i = y \<and> (\<forall>i' < i. xs ! i' \<noteq> y)"
proof (induction xs arbitrary: i)
  case Nil
  then show ?case by simp
next
  case (Cons x xs)
  then show ?case
    by (auto simp: nth_Cons split: if_splits nat.splits)
qed

lemma index_of_mem: "y \<in> set xs \<Longrightarrow> \<exists>i. index_of xs y = Some i"
  by (induction xs) auto

subsection \<open>The remapped distance matrix, entry by entry\<close>

lemma remap_dist_entries:
  assumes "remap_dist ats ats_pdb dist_pdb = Some D'"
  shows "length D' = length ats"
    and "j < length ats \<Longrightarrow> length (D' ! j) = length ats"
    and "j < length ats \<Longrightarrow> k < length ats \<Longrightarrow>
           remap_entry ats_pdb dist_pdb (j, ats ! j) (k, ats ! k) = Some (D' ! j ! k)"
proof -
  let ?row = "\<lambda>p1. those (map (\<lambda>p2. remap_entry ats_pdb dist_pdb p1 p2) (enumerate 0 ats))"
  from assms have outer: "those (map ?row (enumerate 0 ats)) = Some D'"
    by (simp add: remap_dist_def)
  from those_map_Some [OF outer] have
    len: "length D' = length ats" and
    rows: "\<forall>i < length ats. ?row (enumerate 0 ats ! i) = Some (D' ! i)"
    by simp_all
  show "length D' = length ats" by (rule len)
  {
    assume j: "j < length ats"
    with rows have row: "?row (j, ats ! j) = Some (D' ! j)"
      by (simp add: nth_enumerate_eq)
    from those_map_Some [OF row] have
      rl: "length (D' ! j) = length ats" and
      ent: "\<forall>i < length ats. remap_entry ats_pdb dist_pdb (j, ats ! j) (enumerate 0 ats ! i)
               = Some (D' ! j ! i)"
      by simp_all
    show "length (D' ! j) = length ats" by (rule rl)
    assume "k < length ats"
    with ent show "remap_entry ats_pdb dist_pdb (j, ats ! j) (k, ats ! k) = Some (D' ! j ! k)"
      by (simp add: nth_enumerate_eq)
  }
qed

text \<open>The remap returns when every label of the columns is the gap mark or a structure label,
  and the raw matrix covers the structure labels.\<close>

lemma remap_dist_total:
  assumes lab: "list_all (\<lambda>p. p = Str ''-'' \<or> p \<in> set ats_pdb) ats"
    and rows: "length ats_pdb \<le> length dist_pdb"
    and cols: "list_all (\<lambda>row. length ats_pdb \<le> length row) dist_pdb"
  shows "\<exists>D'. remap_dist ats ats_pdb dist_pdb = Some D'"
proof -
  have entry: "remap_entry ats_pdb dist_pdb (j, p1) (k, p2) \<noteq> None"
    if "p1 = Str ''-'' \<or> p1 \<in> set ats_pdb" "p2 = Str ''-'' \<or> p2 \<in> set ats_pdb"
    for j k p1 p2
  proof (cases "k \<noteq> j \<and> p1 \<noteq> Str ''-'' \<and> p2 \<noteq> Str ''-''")
    case True
    with that obtain a b where a: "index_of ats_pdb p1 = Some a" and b: "index_of ats_pdb p2 = Some b"
      using index_of_mem by metis
    from index_of_Some [OF a] index_of_Some [OF b]
    have al: "a < length ats_pdb" and bl: "b < length ats_pdb" by simp_all
    from al rows have ad: "a < length dist_pdb" by simp
    with cols have "length ats_pdb \<le> length (dist_pdb ! a)"
      by (simp add: list_all_length)
    with bl ad have "a < length dist_pdb" "b < length (dist_pdb ! a)"
      by simp_all
    with True a b show ?thesis
      by (simp add: remap_entry_def mat_get_def)
  next
    case False
    then show ?thesis by (auto simp: remap_entry_def)
  qed
  have en: "list_all (\<lambda>q. snd q = Str ''-'' \<or> snd q \<in> set ats_pdb) (enumerate 0 ats)"
    using lab by (auto simp: list_all_iff in_set_enumerate_eq)
  have row: "\<exists>r. those (map (\<lambda>p2. remap_entry ats_pdb dist_pdb p1 p2) (enumerate 0 ats)) = Some r"
    if "snd p1 = Str ''-'' \<or> snd p1 \<in> set ats_pdb" for p1
  proof (rule those_map_total)
    show "list_all (\<lambda>x. remap_entry ats_pdb dist_pdb p1 x \<noteq> None) (enumerate 0 ats)"
      using en that entry [of "snd p1" _ "fst p1"]
      by (cases p1) (auto simp: list_all_iff)
  qed
  have "list_all (\<lambda>p1. those (map (\<lambda>p2. remap_entry ats_pdb dist_pdb p1 p2) (enumerate 0 ats)) \<noteq> None)
          (enumerate 0 ats)"
    using en row by (auto simp: list_all_iff)
  from those_map_total [OF this] show ?thesis
    by (simp add: remap_dist_def)
qed

text \<open>A small structure used in the evaluations: three structure positions \<^verbatim>\<open>'5'\<close>, \<^verbatim>\<open>'6'\<close>,
  \<^verbatim>\<open>'7'\<close> and an alignment of three columns whose middle one has no structure position.\<close>

lemma remap_dist_example:
  "remap_dist [Str ''5'', Str ''-'', Str ''7''] [Str ''5'', Str ''6'', Str ''7'']
       [[0, 4, 9], [4, 0, 6], [9, 6, 0]]
     = Some [[0, 1000, 9], [1000, 0, 1000], [9, 1000, 0]]"
  by (simp add: remap_dist_def remap_entry_def mat_get_def)

subsection \<open>Removal of non-standard sequences, re-slicing\<close>

lemma flag_of_zero: "flag_of k = 0 \<longleftrightarrow> list_all standard_aa k"
  by (induction k) auto

lemma remove_loop_acc:
  "remove_loop hs i ks (a, h) = Inr (a', h') \<Longrightarrow>
     a' = a @ filter (list_all standard_aa) ks \<and>
     h' = h @ map fst (filter (\<lambda>p. list_all standard_aa (snd p)) (zip (drop i hs) ks))"
proof (induction ks arbitrary: i a h)
  case Nil
  then show ?case by simp
next
  case (Cons k ks)
  show ?case
  proof (cases "list_all standard_aa k")
    case True
    with Cons.prems have i: "i < length hs"
      and rec: "remove_loop hs (i + 1) ks (a @ [k], h @ [hs ! i]) = Inr (a', h')"
      by (auto simp: flag_of_zero split: if_splits)
    from i have d: "drop i hs = hs ! i # drop (Suc i) hs"
      by (simp add: Cons_nth_drop_Suc)
    from Cons.IH [OF rec] True d show ?thesis by simp
  next
    case False
    with Cons.prems have rec: "remove_loop hs (i + 1) ks (a, h) = Inr (a', h')"
      by (auto simp: flag_of_zero)
    have "zip (drop i hs) (k # ks) = [] \<and> zip (drop (Suc i) hs) ks = []
          \<or> zip (drop i hs) (k # ks) = (hs ! i, k) # zip (drop (Suc i) hs) ks"
    proof (cases "i < length hs")
      case True
      then show ?thesis by (simp add: Cons_nth_drop_Suc [symmetric])
    next
      case False
      then show ?thesis by simp
    qed
    with Cons.IH [OF rec] False show ?thesis by auto
  qed
qed

lemma remove_loop_lengths:
  "remove_loop hs i ks (a, h) = Inr (a', h') \<Longrightarrow> length a = length h \<Longrightarrow> length a' = length h'"
proof (induction ks arbitrary: i a h)
  case Nil
  then show ?case by simp
next
  case (Cons k ks)
  show ?case
  proof (cases "flag_of k = 0")
    case True
    with Cons.prems(1) have "remove_loop hs (i + 1) ks (a @ [k], h @ [hs ! i]) = Inr (a', h')"
      by (simp split: if_splits)
    from Cons.IH [OF this] Cons.prems(2) show ?thesis by simp
  next
    case False
    with Cons.prems(1) have "remove_loop hs (i + 1) ks (a, h) = Inr (a', h')"
      by simp
    from Cons.IH [OF this] Cons.prems(2) show ?thesis by simp
  qed
qed

lemma remove_loop_total:
  "length ks + i \<le> length hs \<Longrightarrow> \<exists>a' h'. remove_loop hs i ks (a, h) = Inr (a', h')"
proof (induction ks arbitrary: i a h)
  case Nil
  then show ?case by simp
next
  case (Cons k ks)
  then have i: "i < length hs" and le: "length ks + (i + 1) \<le> length hs" by simp_all
  show ?case
  proof (cases "flag_of k = 0")
    case True
    from Cons.IH [OF le, of "a @ [k]" "h @ [hs ! i]"] True i show ?thesis by simp
  next
    case False
    from Cons.IH [OF le, of a h] False show ?thesis by simp
  qed
qed

lemma remove_nonstandard_result:
  assumes "remove_nonstandard hs ss = Inr (hf, so)"
  shows "so = filter (list_all standard_aa) ss"
    and "hf = map fst (filter (\<lambda>p. list_all standard_aa (snd p)) (zip hs ss))"
    and "length hf = length so"
proof -
  from assms have l: "remove_loop hs 0 ss ([], []) = Inr (so, hf)"
    by (auto simp: remove_nonstandard_def split: sum.splits)
  from remove_loop_acc [OF l]
  show "so = filter (list_all standard_aa) ss"
    and "hf = map fst (filter (\<lambda>p. list_all standard_aa (snd p)) (zip hs ss))"
    by simp_all
  from remove_loop_lengths [OF l] show "length hf = length so" by simp
qed


lemma py_get_mem: "py_get xs i = Some x \<Longrightarrow> x \<in> set xs"
  by (auto simp: py_get_def split: if_splits)

lemma reslice_Some:
  "reslice xs idx = Some ys \<Longrightarrow> ys = map (\<lambda>i. xs ! i) idx \<and> list_all (\<lambda>i. i < length xs) idx"
  by (auto simp: reslice_def split: if_splits)

lemma ix_select_Some:
  "ix_select D idx = Some X \<Longrightarrow> X = map (\<lambda>a. map (\<lambda>b. D ! a ! b) idx) idx"
  by (auto simp: ix_select_def split: if_splits)

lemma ix_select_square:
  assumes "length D = n" and "list_all (\<lambda>row. length row = n) D"
    and "list_all (\<lambda>i. i < n) idx"
  shows "ix_select D idx \<noteq> None"
proof (cases D)
  case Nil
  with assms(1) have "n = 0" by simp
  with assms(3) have "idx = []" by (cases idx) auto
  then show ?thesis by (simp add: ix_select_def)
next
  case (Cons row rows)
  with assms(2) have "mat_cols D = n" by simp
  with assms(1,3) show ?thesis by (simp add: ix_select_def)
qed

lemma remove_nonstandard_example:
  "remove_nonstandard [''h0'', ''h1'', ''h2''] [''AC-'', ''AXB'', ''DE-'']
     = Inr ([''h0'', ''h2''], [''AC-'', ''DE-''])"
  by (simp add: remove_nonstandard_def standard_aa_def)

subsection \<open>The reference of a structure\<close>

lemma find_ref_pdb_fallback:
  "search_ref env hf sf seq_pdb (Some s) = None \<Longrightarrow>
     find_ref_pdb env hf sf seq_pdb (Some s) = find_ref_pdb env hf sf seq_pdb None"
  by (simp add: find_ref_pdb_def)

lemma find_ref_pdb_Inr:
  "find_ref_pdb env hf sf seq_pdb None = Inr i \<Longrightarrow>
     MSAsearch env hf sf seq_pdb None = Some i \<and> search_ref env hf sf seq_pdb None = Some i"
  by (auto simp: find_ref_pdb_def search_ref_def split: option.splits)

lemma resolve_pdb_index:
  "resolve_pdb env opts pid hf sf = Inr r \<Longrightarrow>
     \<exists>seq_pdb ats_pdb dist_pdb.
        pdbSeq env pid (chainID opts) = Some (seq_pdb, ats_pdb, dist_pdb) \<and>
        find_ref_pdb env hf sf seq_pdb (species opts) = Inr (r_i_ref r)"
  by (auto simp: resolve_pdb_def split: option.splits sum.splits)

lemma resolve_pdb_species_cong:
  "pdbSeq env pid (chainID opts) = Some (seq_pdb, ats_pdb, dist_pdb) \<Longrightarrow>
   find_ref_pdb env hf sf seq_pdb (species opts) = find_ref_pdb env hf sf seq_pdb sp' \<Longrightarrow>
     resolve_pdb env opts pid hf sf = resolve_pdb env (opts\<lparr>species := sp'\<rparr>) pid hf sf"
  by (simp add: resolve_pdb_def cong: sum.case_cong)

lemma species_example_resolve:
  "resolve
     (no_collaborators
        \<lparr>pdbSeq := (\<lambda>pid chain. Some (''AC'', [Str ''10'', Str ''11''], [[0, 4], [4, 0]])),
         MSAsearch := (\<lambda>hd' algn q sp. case sp of None \<Rightarrow> Some 1 | Some s \<Rightarrow> None),
         makeATS := gapfree_makeATS\<rparr>)
     (preamble (default_options\<lparr>pdbid := Some ''1RX2'', species := Some ''Homo sapiens''\<rparr>))
     [''h0'', ''h1''] [''A-'', ''AC''] [''A-'', ''AC'']
   = Inr \<lparr>r_i_ref = 1, r_sequences = [''A-'', ''AC''], r_ats = [Str ''10'', Str ''11''],
          r_dist_pdb = Some [[0, 4], [4, 0]]\<rparr>"
  by (simp add: preamble_def default_options_def resolve_def resolve_pdb_def find_ref_pdb_def
        search_ref_def py_get_def gapfree_makeATS_def remap_dist_def remap_entry_def mat_get_def
        no_collaborators_def)

subsection \<open>Down-selection\<close>

lemma py_int_nonneg: "0 \<le> x \<Longrightarrow> py_int x = \<lfloor>x\<rfloor>"
  by (simp add: py_int_def)

lemma effseqsprelimit_of_floor:
  "np_sum env seqw0 = Some S \<Longrightarrow> 0 \<le> S \<Longrightarrow> effseqsprelimit_of env seqw0 = Some \<lfloor>S\<rfloor>"
  by (simp add: effseqsprelimit_of_def py_int_nonneg)

lemma select_count_floor:
  assumes "0 \<le> n" and "3 * n < 2 ^ 53"
  shows "select_count env n = Some \<lfloor>1.5 * real_of_int n\<rfloor>"
proof -
  from assms have g: "\<bar>3 * n\<bar> < 2 ^ 53" by simp
  from assms(1) have "0 \<le> 1.5 * real_of_int n" by simp
  then have "py_int (1.5 * real_of_int n) = \<lfloor>1.5 * real_of_int n\<rfloor>"
    by (rule py_int_nonneg)
  with g show ?thesis by (simp add: select_count_def)
qed

lemma keep_list_cases:
  "(keep_list seqkeep iref = [] \<and> index_of (map int seqkeep) iref = None) \<or>
   (\<exists>p. keep_list seqkeep iref = [p] \<and> index_of (map int seqkeep) iref = Some p \<and>
        p < length seqkeep \<and> int (seqkeep ! p) = iref)"
proof (cases "index_of (map int seqkeep) iref")
  case None
  then show ?thesis by (simp add: keep_list_def)
next
  case (Some p)
  from index_of_Some [OF Some] have "p < length seqkeep" "int (seqkeep ! p) = iref"
    by auto
  with Some show ?thesis by (simp add: keep_list_def)
qed

lemma length_without_nth:
  "i < length xs \<Longrightarrow> length (take i xs @ drop (Suc i) xs) = length xs - 1"
  by (simp add: min_def)

lemma set_without_nth: "set (take i xs @ drop (Suc i) xs) \<subseteq> set xs"
  by (auto dest: in_set_takeD in_set_dropD)

lemma length_pick_remaining:
  "length (pick_remaining draw t remaining m) = min m (length remaining)"
proof (induction draw t remaining m rule: pick_remaining.induct)
  case (3 draw t r rs m)
  have "draw t mod length (r # rs) < length (r # rs)" by simp
  from length_without_nth [OF this]
  have "length (take (draw t mod length (r # rs)) (r # rs) @
                drop (Suc (draw t mod length (r # rs))) (r # rs)) = length rs"
    by simp
  with "3.IH" show ?case by (simp only: pick_remaining.simps list.size)
qed simp_all

lemma set_pick_remaining:
  "set (pick_remaining draw t remaining m) \<subseteq> set remaining"
proof (induction draw t remaining m rule: pick_remaining.induct)
  case (3 draw t r rs m)
  let ?i = "draw t mod length (r # rs)"
  have i: "?i < length (r # rs)" by simp
  from "3.IH" set_without_nth [of ?i "r # rs"]
  have rest: "set (pick_remaining draw (Suc t)
        (take ?i (r # rs) @ drop (Suc ?i) (r # rs)) m) \<subseteq> set (r # rs)"
    by blast
  from i have here: "(r # rs) ! ?i \<in> set (r # rs)" by (rule nth_mem)
  have "pick_remaining draw t (r # rs) (Suc m)
      = (r # rs) ! ?i # pick_remaining draw (Suc t) (take ?i (r # rs) @ drop (Suc ?i) (r # rs)) m"
    by (simp only: pick_remaining.simps)
  with rest here show ?case
    by (simp only: set_simps insert_subset)
qed simp_all

lemma length_others:
  "p < n \<Longrightarrow> length (filter (\<lambda>i. i \<notin> set [p]) [0..<n]) = n - 1"
proof -
  assume p: "p < n"
  have "filter (\<lambda>i. i \<notin> set [p]) [0..<n] = [0..<p] @ [Suc p..<n]"
  proof -
    from p have "[0..<n] = [0..<p] @ p # [Suc p..<n]"
      by (metis le_add1 less_imp_add_positive upt_add_eq_append upt_conv_Cons zero_le
            add_Suc_right less_eq_nat.simps(1) plus_nat.add_0 upt_rec)
    then show ?thesis by auto
  qed
  with p show ?thesis by simp
qed

lemma spec_randSel_selection:
  assumes keep: "keep = [] \<or> (\<exists>p. keep = [p] \<and> p < n)"
    and w: "length weights = n" and c: "nat count \<le> n"
  shows "\<exists>seqsel. spec_randSel draw weights count keep = Some seqsel \<and>
           list_all (\<lambda>s. s < n) seqsel \<and>
           length seqsel = max (nat count) (length keep) \<and>
           take (length keep) seqsel = keep"
proof -
  let ?rest = "filter (\<lambda>i. i \<notin> set keep) [0..<n]"
  let ?picks = "pick_remaining draw 0 ?rest (nat count - length keep)"
  have sel: "spec_randSel draw weights count keep = Some (keep @ ?picks)"
    using w by (simp add: spec_randSel_def)
  have lr: "length ?rest = n - length keep"
    using keep length_others [of _ n] by auto
  have "set ?picks \<subseteq> set ?rest" by (rule set_pick_remaining)
  then have inr: "list_all (\<lambda>s. s < n) ?picks"
    by (auto simp: list_all_iff)
  have kin: "list_all (\<lambda>s. s < n) keep"
    using keep by auto
  have lk: "length keep \<le> 1" using keep by auto
  have "length ?picks = min (nat count - length keep) (n - length keep)"
    by (simp only: length_pick_remaining lr)
  with c have "length keep + length ?picks = max (nat count) (length keep)"
    by arith
  then have "length (keep @ ?picks) = max (nat count) (length keep)"
    by simp
  with sel inr kin show ?thesis by simp
qed

lemma pick_remaining_numeral:
  "pick_remaining draw t (r # rs) (numeral k) =
     (r # rs) ! (draw t mod length (r # rs)) #
       pick_remaining draw (Suc t)
         (take (draw t mod length (r # rs)) (r # rs) @
          drop (Suc (draw t mod length (r # rs))) (r # rs)) (pred_numeral k)"
  by (simp add: numeral_eq_Suc)

lemma pick_remaining_Nil: "pick_remaining draw t [] m = []"
  by (cases m) simp_all

lemma select_count_example: "select_count env 3 = Some 4"
  by (simp add: select_count_def py_int_def)

lemma down_select_example:
  "down_select
     (no_collaborators\<lparr>randSel := spec_randSel (\<lambda>t. 0), np_sum := exact_sum\<rparr>)
     (default_options\<lparr>Nselect := True\<rparr>)
     [''AC'', ''AD'', ''AE'', ''AF''] [''h0'', ''h2'', ''h3'', ''h5''] [1, 1/2, 1, 1/2]
     [0, 2, 3, 5] 3 3
   = Inr ([''AE'', ''AC'', ''AD'', ''AF''], [''h3'', ''h0'', ''h2'', ''h5''])"
  by (simp add: down_select_def select_count_example keep_list_def spec_randSel_def
        reslice_def upt_rec pick_remaining_numeral pick_remaining_Nil)

subsection \<open>The explicit reference index\<close>

lemma resolve_index_ignores:
  "resolve_index (env\<lparr>pdbSeq := f1, MSAsearch := f2, readAlg := f3, chooseRefSeq := f4\<rparr>)
       (opts\<lparr>pdbid := p, species := sp, refseq := rs\<rparr>) i hf so sf
     = resolve_index env opts i hf so sf"
  by (simp add: resolve_index_def index_positions_def
        cong: option.case_cong)

lemma select_count_ignores:
  "select_count (env\<lparr>pdbSeq := f1, MSAsearch := f2, readAlg := f3, chooseRefSeq := f4\<rparr>) e
     = select_count env e"
  by (simp add: select_count_def)

lemma down_select_ignores:
  "down_select (env\<lparr>pdbSeq := f1, MSAsearch := f2, readAlg := f3, chooseRefSeq := f4\<rparr>)
       (opts\<lparr>pdbid := p, species := sp, refseq := rs\<rparr>) alg1 headers seqw0 seqkeep iref e
     = down_select env opts alg1 headers seqw0 seqkeep iref e"
  by (simp add: down_select_def select_count_ignores cong: option.case_cong)

lemma position_filter_ignores:
  "position_filter (env\<lparr>pdbSeq := f1, MSAsearch := f2, readAlg := f3, chooseRefSeq := f4\<rparr>)
       p0 alg0 seqw0 ats d
     = position_filter env p0 alg0 seqw0 ats d"
  by (simp add: position_filter_def)

lemma effseqsprelimit_of_ignores:
  "effseqsprelimit_of (env\<lparr>pdbSeq := f1, MSAsearch := f2, readAlg := f3, chooseRefSeq := f4\<rparr>) w
     = effseqsprelimit_of env w"
  by (simp add: effseqsprelimit_of_def)

lemma filter_and_select_ignores:
  "filter_and_select (env\<lparr>pdbSeq := f1, MSAsearch := f2, readAlg := f3, chooseRefSeq := f4\<rparr>)
       (opts\<lparr>pdbid := p, species := sp, refseq := rs\<rparr>) hf r
     = filter_and_select env opts hf r"
  by (simp add: filter_and_select_def down_select_ignores position_filter_ignores
        effseqsprelimit_of_ignores
        cong: option.case_cong sum.case_cong prod.case_cong)

lemma filter_and_select_out:
  "filter_and_select env opts hf r = Inr out \<Longrightarrow>
     out_i_ref out = r_i_ref r \<and> (r_dist_pdb r = None \<longrightarrow> out_distmat out = None)"
  by (auto simp: filter_and_select_def position_filter_def distmat_of_def
        split: option.splits sum.splits prod.splits)

lemma resolve_index_out:
  "resolve_index env opts i hf so sf = Inr r \<Longrightarrow> r_i_ref r = i \<and> r_dist_pdb r = None"
  by (auto simp: resolve_index_def split: option.splits)

lemma resolve_index_completes:
  "py_get hf i = Some h \<Longrightarrow> py_get so i = Some s_tmp \<Longrightarrow>
   index_positions env opts so = Some ats_tmp \<Longrightarrow>
   makeATS env sf ats_tmp s_tmp i (truncate_flag opts) = Some (sequences, ats) \<Longrightarrow>
     resolve_index env opts i hf so sf
       = Inr \<lparr>r_i_ref = i, r_sequences = sequences, r_ats = ats, r_dist_pdb = None\<rparr>"
  by (simp add: resolve_index_def)

lemma filter_and_select_completes:
  "ncols (r_sequences r) = Some m \<Longrightarrow> parameters opts = (p0, p1, p2, p3) \<Longrightarrow>
   filterSeq env (r_sequences r) (r_i_ref r) p1 p2 p3 = Some (alg0, seqw0, seqkeep) \<Longrightarrow>
   reslice hf seqkeep = Some headers \<Longrightarrow>
   filterPos env alg0 seqw0 p0 = Some (alg1, K) \<Longrightarrow>
   reslice (r_ats r) K = Some ats' \<Longrightarrow>
   effseqsprelimit_of env seqw0 = Some e \<Longrightarrow>
   ncols alg1 = Some n1 \<Longrightarrow>
   down_select env opts alg1 headers seqw0 seqkeep (r_i_ref r) e = Inr (alg, hd') \<Longrightarrow>
     filter_and_select env opts hf r
       = Inr \<lparr>out_alg = alg, out_hd = hd', out_ats = ats',
              out_distmat = distmat_of (r_dist_pdb r) K, out_i_ref = r_i_ref r,
              out_effseqsprelimit = e, out_Nseqprelimit = length alg1\<rparr>"
  by (simp add: filter_and_select_def position_filter_def)

section \<open>Claims\<close>

text \<open>
  Claim C1.  The claim asks for the default position labels 1, 2, ..., L.  The script's
  docstring ("sequential numbering (starting at 1) is assumed") and its messages
  ("Using default numbering 1..N") say the same, but lines 199 and 208 take
  \<^verbatim>\<open>range(len(sequences_full[0]))\<close>, which starts at 0.  Evaluated on a gap-free reference
  over 5 columns without truncation: with no hint at all, and with a reference-sequence file
  and no position file, the map is \<open>[0, 1, 2, 3, 4]\<close>.
\<close>

theorem default_numbering_starts_at_zero:
  "resolve (no_collaborators\<lparr>chooseRefSeq := (\<lambda>algn. Some 1)\<rparr>) (preamble default_options)
       [''h0'', ''h1'', ''h2''] [''A-CDE'', ''AFCDE'', ''A-CD-''] [''A-CDE'', ''AFCDE'', ''A-CD-'']
     = Inr \<lparr>r_i_ref = 1, r_sequences = [''A-CDE'', ''AFCDE'', ''A-CD-''],
            r_ats = [Num 0, Num 1, Num 2, Num 3, Num 4], r_dist_pdb = None\<rparr> \<and>
   resolve (no_collaborators
              \<lparr>readAlg := (\<lambda>path. Some ([''ref''], [''AFCDE''])),
               MSAsearch := (\<lambda>hd' algn q s. Some 1),
               makeATS := gapfree_makeATS\<rparr>)
       (preamble (default_options\<lparr>refseq := Some ''ref.fasta''\<rparr>))
       [''h0'', ''h1'', ''h2''] [''A-CDE'', ''AFCDE'', ''A-CD-''] [''A-CDE'', ''AFCDE'', ''A-CD-'']
     = Inr \<lparr>r_i_ref = 1, r_sequences = [''A-CDE'', ''AFCDE'', ''A-CD-''],
            r_ats = [Num 0, Num 1, Num 2, Num 3, Num 4], r_dist_pdb = None\<rparr>"
  by (simp add: preamble_def default_options_def resolve_def resolve_auto_def resolve_refseq_def
        refseq_positions_def py_get_def range_labels_def gapfree_makeATS_def
        no_collaborators_def upt_rec)

text \<open>
  Claim C2, as amended.  In the distance matrix built after the alignment-to-structure map, for
  every column \<open>j\<close> whose label is the gap mark \<^verbatim>\<open>'-'\<close>, the entry \<open>D'[j,k]\<close> is the unreachable
  value 1000 for every other column \<open>k \<noteq> j\<close>; the diagonal entry \<open>D'[j,j]\<close> is the 0 that
  \<^verbatim>\<open>np.zeros\<close> put there, since the loop skips \<open>k = j\<close>.
\<close>

theorem remap_gap_row_unreachable:
  assumes "remap_dist ats ats_pdb dist_pdb = Some D'"
    and "j < length ats" and "k < length ats" and "ats ! j = Str ''-''"
  shows "D' ! j ! k = (if k = j then 0 else 1000)"
proof -
  from remap_dist_entries(3) [OF assms(1-3)]
  have "remap_entry ats_pdb dist_pdb (j, ats ! j) (k, ats ! k) = Some (D' ! j ! k)" .
  with assms(4) show ?thesis
    by (simp add: remap_entry_def split: if_splits)
qed

theorem remap_gap_row_unreachable_witness:
  "remap_dist [Str ''5'', Str ''-'', Str ''7''] [Str ''5'', Str ''6'', Str ''7'']
       [[0, 4, 9], [4, 0, 6], [9, 6, 0]]
     = Some [[0, 1000, 9], [1000, 0, 1000], [9, 1000, 0]] \<and>
   [[0, 1000, 9], [1000, 0, 1000], [9, 1000, 0 :: real]] ! 1 ! 2 = 1000"
  using remap_gap_row_unreachable [OF remap_dist_example, of 1 2] remap_dist_example
  by simp

text \<open>
  Claim C2 as stated includes \<open>k = j\<close>; there the code leaves 0, not the unreachable value:
  column 1 of the example is a gap column and its diagonal entry is 0.
\<close>

theorem remap_gap_diagonal_counterexample:
  "remap_dist [Str ''5'', Str ''-'', Str ''7''] [Str ''5'', Str ''6'', Str ''7'']
       [[0, 4, 9], [4, 0, 6], [9, 6, 0]]
     = Some [[0, 1000, 9], [1000, 0, 1000], [9, 1000, 0]] \<and>
   [Str ''5'', Str ''-'', Str ''7''] ! 1 = Str ''-'' \<and>
   [[0, 1000, 9], [1000, 0, 1000], [9, 1000, 0 :: real]] ! 1 ! 1 \<noteq> 1000"
  by (simp add: remap_dist_def remap_entry_def mat_get_def)

text \<open>
  Claim C3, as amended.  With down-selection enabled, the effective sequence count of line 254
  is the sum of the weights as numpy computes it, truncated to an integer, and the count asked
  of \<^verbatim>\<open>randSel\<close> is \<^verbatim>\<open>int(1.5 * effseqsprelimit)\<close>: for a sum \<open>S \<ge> 0\<close> it is
  \<open>floor(1.5 * floor(S))\<close>, not \<open>floor(1.5 * S)\<close> (with \<open>3 * floor(S)\<close> below \<open>2^53\<close>, where the
  float product is exact).  With the selector of the spec and that many sequences at hand,
  the selection returns that many sequences, each with its header, or the one reference when
  the count is 0 and the reference is forced in.  When \<^verbatim>\<open>i_ref\<close> is among the kept indices
  (\<^verbatim>\<open>i_ref in seqkeep\<close>), the row of the reference is selected: it comes first.
\<close>

theorem down_select_count:
  assumes "Nselect opts"
    and "randSel env = spec_randSel draw"
    and "np_sum env seqw0 = Some S" and "0 \<le> S" and "3 * \<lfloor>S\<rfloor> < 2 ^ 53"
    and "length seqw0 = length alg1" and "length headers = length alg1"
    and "length seqkeep = length alg1"
    and "nat \<lfloor>1.5 * real_of_int \<lfloor>S\<rfloor>\<rfloor> \<le> length alg1"
  shows "effseqsprelimit_of env seqw0 = Some \<lfloor>S\<rfloor> \<and>
         select_count env \<lfloor>S\<rfloor> = Some \<lfloor>1.5 * real_of_int \<lfloor>S\<rfloor>\<rfloor> \<and>
         (\<exists>alg hd'.
            down_select env opts alg1 headers seqw0 seqkeep iref \<lfloor>S\<rfloor> = Inr (alg, hd') \<and>
            length hd' = length alg \<and>
            length alg = max (nat \<lfloor>1.5 * real_of_int \<lfloor>S\<rfloor>\<rfloor>) (length (keep_list seqkeep iref)) \<and>
            (\<forall>p. index_of (map int seqkeep) iref = Some p \<longrightarrow>
               int (seqkeep ! p) = iref \<and> alg ! 0 = alg1 ! p \<and> hd' ! 0 = headers ! p))"
proof -
  let ?count = "\<lfloor>1.5 * real_of_int \<lfloor>S\<rfloor>\<rfloor>"
  let ?keep = "keep_list seqkeep iref"
  have eff: "effseqsprelimit_of env seqw0 = Some \<lfloor>S\<rfloor>"
    using assms(3,4) by (rule effseqsprelimit_of_floor)
  from assms(4) have "0 \<le> \<lfloor>S\<rfloor>" by simp
  then have cnt: "select_count env \<lfloor>S\<rfloor> = Some ?count"
    using assms(5) by (rule select_count_floor)
  have keep: "?keep = [] \<or> (\<exists>p. ?keep = [p] \<and> p < length alg1)"
    using keep_list_cases [of seqkeep iref] assms(8) by auto
  from spec_randSel_selection [OF keep assms(6,9), of draw]
  obtain seqsel where
    sel: "spec_randSel draw seqw0 ?count ?keep = Some seqsel" and
    inr: "list_all (\<lambda>s. s < length alg1) seqsel" and
    len: "length seqsel = max (nat ?count) (length ?keep)" and
    front: "take (length ?keep) seqsel = ?keep"
    by blast
  let ?alg = "map (\<lambda>s. alg1 ! s) seqsel"
  let ?hd = "map (\<lambda>s. headers ! s) seqsel"
  have ds: "down_select env opts alg1 headers seqw0 seqkeep iref \<lfloor>S\<rfloor> = Inr (?alg, ?hd)"
    using assms(1,2,7) cnt sel inr by (simp add: down_select_def reslice_def)
  have ref: "int (seqkeep ! p) = iref \<and> ?alg ! 0 = alg1 ! p \<and> ?hd ! 0 = headers ! p"
    if ix: "index_of (map int seqkeep) iref = Some p" for p
  proof -
    from ix have k: "?keep = [p]" by (simp add: keep_list_def)
    with front have "take 1 seqsel = [p]" by simp
    then obtain rest where "seqsel = p # rest"
      by (cases seqsel) auto
    moreover from index_of_Some [OF ix] have "int (seqkeep ! p) = iref" by auto
    ultimately show ?thesis by simp
  qed
  have "length ?hd = length ?alg" by simp
  moreover have "length ?alg = max (nat ?count) (length ?keep)" using len by simp
  ultimately have "\<exists>alg hd'.
      down_select env opts alg1 headers seqw0 seqkeep iref \<lfloor>S\<rfloor> = Inr (alg, hd') \<and>
      length hd' = length alg \<and>
      length alg = max (nat ?count) (length ?keep) \<and>
      (\<forall>p. index_of (map int seqkeep) iref = Some p \<longrightarrow>
         int (seqkeep ! p) = iref \<and> alg ! 0 = alg1 ! p \<and> hd' ! 0 = headers ! p)"
    using ds ref by blast
  with eff cnt show ?thesis by blast
qed

theorem down_select_count_witness:
  "effseqsprelimit_of
     (no_collaborators\<lparr>randSel := spec_randSel (\<lambda>t. 0), np_sum := exact_sum\<rparr>)
     [1, 1/2, 1, 1/2] = Some 3 \<and>
   select_count
     (no_collaborators\<lparr>randSel := spec_randSel (\<lambda>t. 0), np_sum := exact_sum\<rparr>) 3
     = Some 4 \<and>
   down_select
     (no_collaborators\<lparr>randSel := spec_randSel (\<lambda>t. 0), np_sum := exact_sum\<rparr>)
     (default_options\<lparr>Nselect := True\<rparr>)
     [''AC'', ''AD'', ''AE'', ''AF''] [''h0'', ''h2'', ''h3'', ''h5''] [1, 1/2, 1, 1/2]
     [0, 2, 3, 5] 3 3
   = Inr ([''AE'', ''AC'', ''AD'', ''AF''], [''h3'', ''h0'', ''h2'', ''h5'']) \<and>
   length [''AE'', ''AC'', ''AD'', ''AF''] = 4 \<and>
   index_of (map int [0, 2, 3, 5]) 3 = Some 2 \<and>
   [''AE'', ''AC'', ''AD'', ''AF''] ! 0 = [''AC'', ''AD'', ''AE'', ''AF''] ! 2"
proof -
  let ?env = "no_collaborators\<lparr>randSel := spec_randSel (\<lambda>t. 0), np_sum := exact_sum\<rparr>"
  let ?opts = "default_options\<lparr>Nselect := True\<rparr>"
  let ?alg1 = "[''AC'', ''AD'', ''AE'', ''AF'']"
  let ?headers = "[''h0'', ''h2'', ''h3'', ''h5'']"
  let ?w = "[1, 1/2, 1, 1/2 :: real]"
  let ?keep = "[0, 2, 3, 5 :: nat]"
  have f1: "\<lfloor>3 :: real\<rfloor> = 3" by simp
  have f2: "\<lfloor>1.5 * real_of_int 3\<rfloor> = 4" by simp
  have h1: "Nselect ?opts" by simp
  have h2: "randSel ?env = spec_randSel (\<lambda>t. 0)" by simp
  have h3: "np_sum ?env ?w = Some 3" by (simp add: exact_sum_def)
  have h4: "(0 :: real) \<le> 3" by simp
  have h5: "3 * \<lfloor>3 :: real\<rfloor> < 2 ^ 53" by simp
  have h6: "length ?w = length ?alg1" by simp
  have h7: "length ?headers = length ?alg1" by simp
  have h8: "length ?keep = length ?alg1" by simp
  have h9: "nat \<lfloor>1.5 * real_of_int \<lfloor>3 :: real\<rfloor>\<rfloor> \<le> length ?alg1" by simp
  note th = down_select_count [OF h1 h2 h3 h4 h5 h6 h7 h8 h9, of 3]
  from th have a: "effseqsprelimit_of ?env ?w = Some 3"
    unfolding f1 by (rule conjunct1)
  from th have b: "select_count ?env 3 = Some 4"
    unfolding f1 f2 by (rule conjunct2 [THEN conjunct1])
  from th obtain alg hd' where
    d: "down_select ?env ?opts ?alg1 ?headers ?w ?keep 3 3 = Inr (alg, hd')" and
    l: "length alg = max (nat 4) (length (keep_list ?keep 3))" and
    r: "\<forall>p. index_of (map int ?keep) 3 = Some p \<longrightarrow>
          int (?keep ! p) = 3 \<and> alg ! 0 = ?alg1 ! p \<and> hd' ! 0 = ?headers ! p"
    unfolding f1 f2 by blast
  have ix: "index_of (map int ?keep) 3 = Some 2" by simp
  from d down_select_example have alg: "alg = [''AE'', ''AC'', ''AD'', ''AF'']" by simp
  from l have c: "length [''AE'', ''AC'', ''AD'', ''AF''] = 4"
    unfolding alg by (simp add: keep_list_def)
  from r ix have "alg ! 0 = ?alg1 ! 2" by blast
  then have e: "[''AE'', ''AC'', ''AD'', ''AF''] ! 0 = ?alg1 ! 2"
    unfolding alg .
  show ?thesis
    by (intro conjI) (rule a, rule b, rule down_select_example, rule c, rule ix, rule e)
qed

text \<open>
  Claim C3 as stated takes \<open>floor(1.5 * sum of the weights)\<close> and promises the reference
  whenever it survived.  Three sequences of weight 1/2 have the sum 1.5, in float64 too: the
  claim asks for 2 selected sequences, the script selects \<open>int(1.5 * int(1.5)) = 1\<close>.  With
  the reference given as index \<open>-1\<close>, the last sequence, all three sequences kept, the test
  \<^verbatim>\<open>i_ref in seqkeep\<close> fails, nothing is forced, and the one selected sequence is not the
  reference.
\<close>

theorem down_select_count_counterexample:
  "np_sum (no_collaborators\<lparr>randSel := spec_randSel (\<lambda>t. 0), np_sum := exact_sum\<rparr>)
     [1/2, 1/2, 1/2] = Some (3/2) \<and>
   effseqsprelimit_of (no_collaborators\<lparr>randSel := spec_randSel (\<lambda>t. 0), np_sum := exact_sum\<rparr>)
     [1/2, 1/2, 1/2] = Some 1 \<and>
   down_select (no_collaborators\<lparr>randSel := spec_randSel (\<lambda>t. 0), np_sum := exact_sum\<rparr>)
     (default_options\<lparr>Nselect := True\<rparr>)
     [''AC'', ''AD'', ''AE''] [''h0'', ''h1'', ''h2''] [1/2, 1/2, 1/2] [0, 1, 2] 0 1
   = Inr ([''AC''], [''h0'']) \<and>
   length [''AC''] \<noteq> nat \<lfloor>1.5 * (3/2 :: real)\<rfloor> \<and>
   py_get [''AC'', ''AD'', ''AE''] (- 1) = Some ''AE'' \<and>
   down_select (no_collaborators\<lparr>randSel := spec_randSel (\<lambda>t. 0), np_sum := exact_sum\<rparr>)
     (default_options\<lparr>Nselect := True\<rparr>)
     [''AC'', ''AD'', ''AE''] [''h0'', ''h1'', ''h2''] [1/2, 1/2, 1/2] [0, 1, 2] (- 1) 1
   = Inr ([''AC''], [''h0'']) \<and>
   ''AE'' \<notin> set [''AC'']"
  by (simp add: down_select_def select_count_def effseqsprelimit_of_def exact_sum_def
        py_int_def keep_list_def spec_randSel_def reslice_def py_get_def upt_rec
        pick_remaining_numeral pick_remaining_Nil)

text \<open>
  Claim C4.  A position file that cannot be read is recovered from in the reference-sequence
  branch only (lines 191--196).  In the explicit-index branch the \<^verbatim>\<open>open\<close> of line 216
  stands directly in the \<^verbatim>\<open>try\<close> whose handler is \<^verbatim>\<open>sys.exit\<close> (line 222): with the same
  missing file, the run with an explicit index ends with "Can't find reference
  sequence", the run with a reference-sequence file goes on with default numbering.
\<close>

theorem missing_position_file_aborts_explicit_index:
  "read_lines (no_collaborators
              \<lparr>readAlg := (\<lambda>path. Some ([''ref''], [''AFCDE''])),
               MSAsearch := (\<lambda>hd' algn q s. Some 1),
               makeATS := gapfree_makeATS\<rparr>) ''missing.txt'' = None \<and>
   resolve (no_collaborators
              \<lparr>readAlg := (\<lambda>path. Some ([''ref''], [''AFCDE''])),
               MSAsearch := (\<lambda>hd' algn q s. Some 1),
               makeATS := gapfree_makeATS\<rparr>)
       (preamble (default_options\<lparr>i_ref := Some 1, refpos := Some ''missing.txt''\<rparr>))
       [''h0'', ''h1'', ''h2''] [''A-CDE'', ''AFCDE'', ''A-CD-''] [''A-CDE'', ''AFCDE'', ''A-CD-'']
     = Inl Exit_NoRef \<and>
   resolve (no_collaborators
              \<lparr>readAlg := (\<lambda>path. Some ([''ref''], [''AFCDE''])),
               MSAsearch := (\<lambda>hd' algn q s. Some 1),
               makeATS := gapfree_makeATS\<rparr>)
       (preamble (default_options\<lparr>refseq := Some ''ref.fasta'', refpos := Some ''missing.txt''\<rparr>))
       [''h0'', ''h1'', ''h2''] [''A-CDE'', ''AFCDE'', ''A-CD-''] [''A-CDE'', ''AFCDE'', ''A-CD-'']
     = Inr \<lparr>r_i_ref = 1, r_sequences = [''A-CDE'', ''AFCDE'', ''A-CD-''],
            r_ats = [Num 0, Num 1, Num 2, Num 3, Num 4], r_dist_pdb = None\<rparr>"
  by (simp add: preamble_def default_options_def resolve_def resolve_index_def resolve_refseq_def
        refseq_positions_def index_positions_def py_get_def range_labels_def gapfree_makeATS_def
        no_collaborators_def upt_rec)

text \<open>
  Claim C5.  Position filtering (lines 245--252) returns whenever \<^verbatim>\<open>filterPos\<close> returns kept
  column indices \<open>K\<close> that are columns of the map.  Then the new map is the old one restricted
  to \<open>K\<close>, label by label, so it has one label per kept column (and per column of the
  filtered alignment, which \<^verbatim>\<open>filterPos\<close> returns with \<open>len(K)\<close> columns); the new distance
  matrix, when there is one, is the selection \<open>D[K, K]\<close> of the matrix before the filter:
  its entry \<open>(a, b)\<close> is the old entry \<open>(K[a], K[b])\<close>.  There is one whenever the old
  matrix is square over the old map, as the remap builds it.
\<close>

theorem position_filter_reslices:
  "(\<forall>alg1 K. filterPos env alg0 seqw0 p0 = Some (alg1, K) \<and> list_all (\<lambda>i. i < length ats) K
       \<longrightarrow> (\<exists>ats' distmat.
              position_filter env p0 alg0 seqw0 ats dist_pdb = Inr (alg1, K, ats', distmat))) \<and>
   (\<forall>alg1 K ats' distmat.
      position_filter env p0 alg0 seqw0 ats dist_pdb = Inr (alg1, K, ats', distmat) \<longrightarrow>
        filterPos env alg0 seqw0 p0 = Some (alg1, K) \<and>
        ats' = map (\<lambda>i. ats ! i) K \<and> length ats' = length K \<and>
        (list_all (\<lambda>q. length q = length K) alg1
           \<longrightarrow> list_all (\<lambda>q. length q = length ats') alg1) \<and>
        (\<forall>X. distmat = Some X \<longrightarrow>
           (\<exists>D. dist_pdb = Some D \<and> length X = length K \<and>
              (\<forall>a < length K. length (X ! a) = length K \<and>
                 (\<forall>b < length K. X ! a ! b = D ! (K ! a) ! (K ! b))))) \<and>
        (\<forall>D. dist_pdb = Some D \<and> length D = length ats \<and>
              list_all (\<lambda>row. length row = length ats) D \<longrightarrow> distmat \<noteq> None))"
proof (intro conjI allI impI)
  fix alg1 K
  assume "filterPos env alg0 seqw0 p0 = Some (alg1, K) \<and> list_all (\<lambda>i. i < length ats) K"
  then show "\<exists>ats' distmat.
      position_filter env p0 alg0 seqw0 ats dist_pdb = Inr (alg1, K, ats', distmat)"
    by (simp add: position_filter_def reslice_def)
next
  fix alg1 K ats' distmat
  assume pf: "position_filter env p0 alg0 seqw0 ats dist_pdb = Inr (alg1, K, ats', distmat)"
  then have fp: "filterPos env alg0 seqw0 p0 = Some (alg1, K)"
    and rs: "reslice ats K = Some ats'"
    and dm: "distmat = distmat_of dist_pdb K"
    by (auto simp: position_filter_def split: option.splits)
  from reslice_Some [OF rs] have ats': "ats' = map (\<lambda>i. ats ! i) K"
    and inr: "list_all (\<lambda>i. i < length ats) K" by simp_all
  show "filterPos env alg0 seqw0 p0 = Some (alg1, K)" by (rule fp)
  show "ats' = map (\<lambda>i. ats ! i) K" by (rule ats')
  show len: "length ats' = length K" using ats' by simp
  {
    assume "list_all (\<lambda>q. length q = length K) alg1"
    then show "list_all (\<lambda>q. length q = length ats') alg1" using len by simp
  }
  {
    fix X assume "distmat = Some X"
    with dm obtain D where D: "dist_pdb = Some D" and sel: "ix_select D K = Some X"
      by (auto simp: distmat_of_def split: option.splits)
    from ix_select_Some [OF sel] have "X = map (\<lambda>a. map (\<lambda>b. D ! a ! b) K) K" .
    then have "length X = length K \<and>
        (\<forall>a < length K. length (X ! a) = length K \<and>
           (\<forall>b < length K. X ! a ! b = D ! (K ! a) ! (K ! b)))"
      by simp
    with D show "\<exists>D. dist_pdb = Some D \<and> length X = length K \<and>
        (\<forall>a < length K. length (X ! a) = length K \<and>
           (\<forall>b < length K. X ! a ! b = D ! (K ! a) ! (K ! b)))"
      by blast
  }
  {
    fix D
    assume "dist_pdb = Some D \<and> length D = length ats \<and>
              list_all (\<lambda>row. length row = length ats) D"
    with dm ix_select_square [of D "length ats" K] inr
    show "distmat \<noteq> None" by (simp add: distmat_of_def)
  }
qed


theorem position_filter_reslices_witness:
  "position_filter (no_collaborators\<lparr>filterPos := (\<lambda>algn w g. Some ([''AE'', ''AE''], [0, 2]))\<rparr>)
       0.2 [''A-E'', ''ACE''] [1, 1] [Str ''5'', Str ''-'', Str ''7'']
       (Some [[0, 1000, 9], [1000, 0, 1000], [9, 1000, 0]])
     = Inr ([''AE'', ''AE''], [0, 2], [Str ''5'', Str ''7''], Some [[0, 9], [9, 0]]) \<and>
   [Str ''5'', Str ''7''] = map (\<lambda>i. [Str ''5'', Str ''-'', Str ''7''] ! i) [0, 2] \<and>
   list_all (\<lambda>q. length q = length [Str ''5'', Str ''7'']) [''AE'', ''AE''] \<and>
   [[0, 9], [9, 0 :: real]] ! 0 ! 1 = [[0, 1000, 9], [1000, 0, 1000], [9, 1000, 0]] ! 0 ! 2"
proof -
  let ?env = "no_collaborators\<lparr>filterPos := (\<lambda>algn w g. Some ([''AE'', ''AE''], [0, 2]))\<rparr>"
  let ?ats = "[Str ''5'', Str ''-'', Str ''7'']"
  let ?D = "[[0, 1000, 9], [1000, 0, 1000], [9, 1000, 0 :: real]]"
  have ev: "position_filter ?env 0.2 [''A-E'', ''ACE''] [1, 1] ?ats (Some ?D)
      = Inr ([''AE'', ''AE''], [0, 2], [Str ''5'', Str ''7''], Some [[0, 9], [9, 0]])"
    by (simp add: position_filter_def reslice_def distmat_of_def ix_select_def)
  note facts = position_filter_reslices
      [of ?env "[''A-E'', ''ACE'']" "[1, 1]" "0.2" ?ats "Some ?D",
       THEN conjunct2, rule_format, OF ev]
  note a = facts [THEN conjunct2, THEN conjunct1]
  note b = facts [THEN conjunct2, THEN conjunct2, THEN conjunct2, THEN conjunct1]
  have c: "list_all (\<lambda>q. length q = length [Str ''5'', Str ''7'']) [''AE'', ''AE'']"
    using b by simp
  have d: "[[0, 9], [9, 0 :: real]] ! 0 ! 1 = ?D ! 0 ! 2"
    by simp
  show ?thesis
    by (intro conjI) (rule ev, rule a, rule c, rule d)
qed

text \<open>
  Claim C6.  For two distinct columns \<open>j \<noteq> k\<close> whose labels are not the gap mark, the entry
  \<open>D'[j,k]\<close> of the remapped matrix is the entry of the raw matrix at the positions that the two
  labels have in the raw structure-position list (\<^verbatim>\<open>ats_pdb.index\<close>, the first occurrence),
  copied unchanged.  The remap returns a matrix whenever every column label is the gap mark
  or a structure label and the raw matrix covers the structure labels.
\<close>

theorem remap_entry_exact:
  assumes "j < length ats" and "k < length ats" and "j \<noteq> k"
    and "ats ! j \<noteq> Str ''-''" and "ats ! k \<noteq> Str ''-''"
  shows "(list_all (\<lambda>p. p = Str ''-'' \<or> p \<in> set ats_pdb) ats \<and>
          length ats_pdb \<le> length dist_pdb \<and>
          list_all (\<lambda>row. length ats_pdb \<le> length row) dist_pdb
            \<longrightarrow> (\<exists>D'. remap_dist ats ats_pdb dist_pdb = Some D')) \<and>
         (\<forall>D'. remap_dist ats ats_pdb dist_pdb = Some D' \<longrightarrow>
            (\<exists>ix_j ix_k.
               index_of ats_pdb (ats ! j) = Some ix_j \<and> index_of ats_pdb (ats ! k) = Some ix_k \<and>
               ats_pdb ! ix_j = ats ! j \<and> ats_pdb ! ix_k = ats ! k \<and>
               ix_j < length dist_pdb \<and> ix_k < length (dist_pdb ! ix_j) \<and>
               D' ! j ! k = dist_pdb ! ix_j ! ix_k))"
proof (intro conjI allI impI)
  assume "list_all (\<lambda>p. p = Str ''-'' \<or> p \<in> set ats_pdb) ats \<and>
          length ats_pdb \<le> length dist_pdb \<and>
          list_all (\<lambda>row. length ats_pdb \<le> length row) dist_pdb"
  then show "\<exists>D'. remap_dist ats ats_pdb dist_pdb = Some D'"
    using remap_dist_total by blast
next
  fix D'
  assume ok: "remap_dist ats ats_pdb dist_pdb = Some D'"
  from remap_dist_entries(3) [OF ok assms(1,2)]
  have e: "remap_entry ats_pdb dist_pdb (j, ats ! j) (k, ats ! k) = Some (D' ! j ! k)" .
  with assms(3-5) obtain ix_j ix_k where
    ij: "index_of ats_pdb (ats ! j) = Some ix_j" and
    ik: "index_of ats_pdb (ats ! k) = Some ix_k" and
    g: "mat_get dist_pdb ix_j ix_k = Some (D' ! j ! k)"
    by (auto simp: remap_entry_def split: if_splits option.splits)
  from g have "ix_j < length dist_pdb" "ix_k < length (dist_pdb ! ix_j)"
    "D' ! j ! k = dist_pdb ! ix_j ! ix_k"
    by (auto simp: mat_get_def split: if_splits)
  with ij ik index_of_Some [OF ij] index_of_Some [OF ik]
  show "\<exists>ix_j ix_k.
          index_of ats_pdb (ats ! j) = Some ix_j \<and> index_of ats_pdb (ats ! k) = Some ix_k \<and>
          ats_pdb ! ix_j = ats ! j \<and> ats_pdb ! ix_k = ats ! k \<and>
          ix_j < length dist_pdb \<and> ix_k < length (dist_pdb ! ix_j) \<and>
          D' ! j ! k = dist_pdb ! ix_j ! ix_k"
    by blast
qed

theorem remap_entry_exact_witness:
  "remap_dist [Str ''5'', Str ''-'', Str ''7''] [Str ''5'', Str ''6'', Str ''7'']
       [[0, 4, 9], [4, 0, 6], [9, 6, 0]]
     = Some [[0, 1000, 9], [1000, 0, 1000], [9, 1000, 0]] \<and>
   index_of [Str ''5'', Str ''6'', Str ''7''] (Str ''5'') = Some 0 \<and>
   index_of [Str ''5'', Str ''6'', Str ''7''] (Str ''7'') = Some 2 \<and>
   [[0, 1000, 9], [1000, 0, 1000], [9, 1000, 0 :: real]] ! 0 ! 2
     = [[0, 4, 9], [4, 0, 6], [9, 6, 0]] ! 0 ! 2"
proof -
  let ?ats = "[Str ''5'', Str ''-'', Str ''7'']"
  let ?pdb = "[Str ''5'', Str ''6'', Str ''7'']"
  let ?D = "[[0, 4, 9], [4, 0, 6], [9, 6, 0 :: real]]"
  have "\<forall>D'. remap_dist ?ats ?pdb ?D = Some D' \<longrightarrow>
          (\<exists>ix_j ix_k.
             index_of ?pdb (?ats ! 0) = Some ix_j \<and> index_of ?pdb (?ats ! 2) = Some ix_k \<and>
             ?pdb ! ix_j = ?ats ! 0 \<and> ?pdb ! ix_k = ?ats ! 2 \<and>
             ix_j < length ?D \<and> ix_k < length (?D ! ix_j) \<and>
             D' ! 0 ! 2 = ?D ! ix_j ! ix_k)"
    using remap_entry_exact [of 0 ?ats 2 ?pdb ?D] by simp
  with remap_dist_example show ?thesis
    by auto
qed

text \<open>
  Claim C7.  With a structure identifier and a species hint (and neither an explicit index
  nor a reference-sequence file, which would take precedence), when the species-constrained
  search of lines 145--149 raises, the reference is searched for exactly as without the
  hint: resolution gives the same result as the run without the species hint, a resolved
  index is the one the unconstrained \<^verbatim>\<open>MSAsearch\<close> returns on the same headers, sequences and
  structure sequence, and when the unconstrained search fails too the run ends with
  \<^verbatim>\<open>sys.exit\<close> (the message is that of line 182, whose bare \<^verbatim>\<open>except\<close> catches the exit of
  line 158).
\<close>

theorem species_fallback_unconstrained:
  assumes "i_ref options0 = None" and "pdbid options0 = Some pid"
    and "species options0 = Some s" and "refseq options0 = None"
    and "pdbSeq env pid (chainID options0) = Some (seq_pdb, ats_pdb, dist_pdb)"
    and "search_ref env headers_full sequences_full seq_pdb (Some s) = None"
  shows "find_ref_pdb env headers_full sequences_full seq_pdb (Some s)
           = find_ref_pdb env headers_full sequences_full seq_pdb None \<and>
         resolve env (preamble options0) headers_full sequences_ori sequences_full
           = resolve env (preamble (options0\<lparr>species := None\<rparr>)) headers_full sequences_ori
               sequences_full \<and>
         (\<forall>r. resolve env (preamble options0) headers_full sequences_ori sequences_full = Inr r
            \<longrightarrow> MSAsearch env headers_full sequences_full seq_pdb None = Some (r_i_ref r)) \<and>
         (search_ref env headers_full sequences_full seq_pdb None = None
            \<longrightarrow> resolve env (preamble options0) headers_full sequences_ori sequences_full
                  = Inl Exit_PDB)"
proof -
  have fb: "find_ref_pdb env headers_full sequences_full seq_pdb (Some s)
           = find_ref_pdb env headers_full sequences_full seq_pdb None"
    using assms(6) by (rule find_ref_pdb_fallback)
  have p1: "preamble options0 = options0"
    using assms(1-4) by (simp add: preamble_def)
  have p2: "preamble (options0\<lparr>species := None\<rparr>) = options0\<lparr>species := None\<rparr>"
    using assms(1-4) by (simp add: preamble_def)
  have r1: "resolve env options0 headers_full sequences_ori sequences_full
      = resolve_pdb env options0 pid headers_full sequences_full"
    using assms(1,2) by (simp add: resolve_def)
  have r2: "resolve env (options0\<lparr>species := None\<rparr>) headers_full sequences_ori sequences_full
      = resolve_pdb env (options0\<lparr>species := None\<rparr>) pid headers_full sequences_full"
    using assms(1,2) by (simp add: resolve_def)
  have eq: "resolve_pdb env options0 pid headers_full sequences_full
      = resolve_pdb env (options0\<lparr>species := None\<rparr>) pid headers_full sequences_full"
    using assms(5) fb assms(3) by (intro resolve_pdb_species_cong) simp_all
  have idx: "MSAsearch env headers_full sequences_full seq_pdb None = Some (r_i_ref r)"
    if "resolve env (preamble options0) headers_full sequences_ori sequences_full = Inr r" for r
  proof -
    from that p1 r1 have "resolve_pdb env options0 pid headers_full sequences_full = Inr r"
      by simp
    from resolve_pdb_index [OF this] assms(5,3) fb
    have "find_ref_pdb env headers_full sequences_full seq_pdb None = Inr (r_i_ref r)"
      by auto
    from find_ref_pdb_Inr [OF this] show ?thesis by simp
  qed
  have fatal: "resolve env (preamble options0) headers_full sequences_ori sequences_full
                  = Inl Exit_PDB"
    if "search_ref env headers_full sequences_full seq_pdb None = None"
    using that assms(3,5,6) p1 r1 by (simp add: resolve_pdb_def find_ref_pdb_def)
  from fb p1 p2 r1 r2 eq idx fatal show ?thesis by simp
qed

theorem species_fallback_unconstrained_witness:
  "find_ref_pdb
     (no_collaborators
        \<lparr>pdbSeq := (\<lambda>pid chain. Some (''AC'', [Str ''10'', Str ''11''], [[0, 4], [4, 0]])),
         MSAsearch := (\<lambda>hd' algn q sp. case sp of None \<Rightarrow> Some 1 | Some s \<Rightarrow> None),
         makeATS := gapfree_makeATS\<rparr>)
     [''h0'', ''h1''] [''A-'', ''AC''] ''AC'' (Some ''Homo sapiens'')
   = find_ref_pdb
     (no_collaborators
        \<lparr>pdbSeq := (\<lambda>pid chain. Some (''AC'', [Str ''10'', Str ''11''], [[0, 4], [4, 0]])),
         MSAsearch := (\<lambda>hd' algn q sp. case sp of None \<Rightarrow> Some 1 | Some s \<Rightarrow> None),
         makeATS := gapfree_makeATS\<rparr>)
     [''h0'', ''h1''] [''A-'', ''AC''] ''AC'' None \<and>
   MSAsearch
     (no_collaborators
        \<lparr>pdbSeq := (\<lambda>pid chain. Some (''AC'', [Str ''10'', Str ''11''], [[0, 4], [4, 0]])),
         MSAsearch := (\<lambda>hd' algn q sp. case sp of None \<Rightarrow> Some 1 | Some s \<Rightarrow> None),
         makeATS := gapfree_makeATS\<rparr>)
     [''h0'', ''h1''] [''A-'', ''AC''] ''AC'' None
   = Some (r_i_ref \<lparr>r_i_ref = 1, r_sequences = [''A-'', ''AC''],
                    r_ats = [Str ''10'', Str ''11''], r_dist_pdb = Some [[0, 4], [4, 0]]\<rparr>) \<and>
   resolve
     (no_collaborators
        \<lparr>pdbSeq := (\<lambda>pid chain. Some (''AC'', [Str ''10'', Str ''11''], [[0, 4], [4, 0]])),
         MSAsearch := (\<lambda>hd' algn q sp. case sp of None \<Rightarrow> Some 1 | Some s \<Rightarrow> None),
         makeATS := gapfree_makeATS\<rparr>)
     (preamble (default_options\<lparr>pdbid := Some ''1RX2'', species := Some ''Homo sapiens''\<rparr>))
     [''h0'', ''h1''] [''A-'', ''AC''] [''A-'', ''AC'']
   = Inr \<lparr>r_i_ref = 1, r_sequences = [''A-'', ''AC''], r_ats = [Str ''10'', Str ''11''],
          r_dist_pdb = Some [[0, 4], [4, 0]]\<rparr>"
proof -
  let ?env = "no_collaborators
        \<lparr>pdbSeq := (\<lambda>pid chain. Some (''AC'', [Str ''10'', Str ''11''], [[0, 4], [4, 0 :: real]])),
         MSAsearch := (\<lambda>hd' algn q sp. case sp of None \<Rightarrow> Some 1 | Some s \<Rightarrow> None),
         makeATS := gapfree_makeATS\<rparr>"
  let ?opts = "default_options\<lparr>pdbid := Some ''1RX2'', species := Some ''Homo sapiens''\<rparr>"
  have h1: "i_ref ?opts = None" by (simp add: default_options_def)
  have h2: "pdbid ?opts = Some ''1RX2''" by simp
  have h3: "species ?opts = Some ''Homo sapiens''" by simp
  have h4: "refseq ?opts = None" by (simp add: default_options_def)
  have h5: "pdbSeq ?env ''1RX2'' (chainID ?opts)
      = Some (''AC'', [Str ''10'', Str ''11''], [[0, 4], [4, 0]])" by simp
  have h6: "search_ref ?env [''h0'', ''h1''] [''A-'', ''AC''] ''AC'' (Some ''Homo sapiens'') = None"
    by (simp add: search_ref_def)
  note facts = species_fallback_unconstrained
    [OF h1 h2 h3 h4 h5 h6, of "[''A-'', ''AC'']"]
  note a = facts [THEN conjunct1]
  note b = facts [THEN conjunct2, THEN conjunct2, THEN conjunct1, rule_format,
                  OF species_example_resolve]
  show ?thesis
    by (intro conjI) (rule a, rule b, rule species_example_resolve)
qed

text \<open>
  Claim C8.  With an explicit reference index, the outcome of the run does not depend on the
  structure identifier, the species hint or the reference-sequence file, nor on what
  structure fetch, best-match search, reading a reference file or automatic choice would
  return: none of them is consulted.  Resolution returns the explicit index, with no distance
  matrix, as soon as the index is in range, the position labels are there and the map is
  built.  The run produces its outputs as soon as, besides, the filters, the float sum and
  the selection return: no step needs a structure or a distance matrix, and the run exports
  the explicit index as \<^verbatim>\<open>i_ref\<close> and \<^verbatim>\<open>distmat = None\<close>.
\<close>

theorem explicit_index_wins:
  assumes "i_ref options0 = Some i"
  shows "run (env\<lparr>pdbSeq := f1, MSAsearch := f2, readAlg := f3, chooseRefSeq := f4\<rparr>)
             (options0\<lparr>pdbid := p, species := sp, refseq := rs\<rparr>) headers_in sequences_in
           = run env options0 headers_in sequences_in \<and>
         (\<forall>out. run env options0 headers_in sequences_in = Inr out \<longrightarrow>
            out_i_ref out = i \<and> out_distmat out = None) \<and>
         (\<forall>hf so sf h s_tmp ats_tmp sequences ats.
            py_get hf i = Some h \<and> py_get so i = Some s_tmp \<and>
            index_positions env options0 so = Some ats_tmp \<and>
            makeATS env sf ats_tmp s_tmp i (truncate_flag options0) = Some (sequences, ats)
            \<longrightarrow> resolve env (preamble options0) hf so sf
                  = Inr \<lparr>r_i_ref = i, r_sequences = sequences, r_ats = ats,
                         r_dist_pdb = None\<rparr>) \<and>
         (\<forall>n hf so sf K0 n' h s_tmp ats_tmp sequences ats m p0 p1 p2 p3 alg0 seqw0 seqkeep
             headers alg1 K ats' e n1 alg hd'.
            ncols sequences_in = Some n \<and>
            remove_nonstandard headers_in sequences_in = Inr (hf, so) \<and>
            filterPos env so [1] 0.8 = Some (sf, K0) \<and>
            ncols sf = Some n' \<and>
            py_get hf i = Some h \<and> py_get so i = Some s_tmp \<and>
            index_positions env options0 so = Some ats_tmp \<and>
            makeATS env sf ats_tmp s_tmp i (truncate_flag options0) = Some (sequences, ats) \<and>
            ncols sequences = Some m \<and>
            parameters options0 = (p0, p1, p2, p3) \<and>
            filterSeq env sequences i p1 p2 p3 = Some (alg0, seqw0, seqkeep) \<and>
            reslice hf seqkeep = Some headers \<and>
            filterPos env alg0 seqw0 p0 = Some (alg1, K) \<and>
            reslice ats K = Some ats' \<and>
            effseqsprelimit_of env seqw0 = Some e \<and>
            ncols alg1 = Some n1 \<and>
            down_select env options0 alg1 headers seqw0 seqkeep i e = Inr (alg, hd')
            \<longrightarrow> run env options0 headers_in sequences_in
                  = Inr \<lparr>out_alg = alg, out_hd = hd', out_ats = ats', out_distmat = None,
                         out_i_ref = i, out_effseqsprelimit = e,
                         out_Nseqprelimit = length alg1\<rparr>)"
proof -
  have p1: "preamble options0 = options0"
    using assms by (simp add: preamble_def)
  have p2: "preamble (options0\<lparr>pdbid := p, species := sp, refseq := rs\<rparr>)
      = options0\<lparr>pdbid := p, species := sp, refseq := rs\<rparr>"
    using assms by (simp add: preamble_def)
  have ri: "resolve env options0 hf so sf = resolve_index env options0 i hf so sf" for hf so sf
    using assms by (simp add: resolve_def)
  have r: "resolve (env\<lparr>pdbSeq := f1, MSAsearch := f2, readAlg := f3, chooseRefSeq := f4\<rparr>)
             (options0\<lparr>pdbid := p, species := sp, refseq := rs\<rparr>) hf so sf
      = resolve env options0 hf so sf" for hf so sf
    using assms by (simp add: resolve_def resolve_index_ignores)
  have same: "run (env\<lparr>pdbSeq := f1, MSAsearch := f2, readAlg := f3, chooseRefSeq := f4\<rparr>)
             (options0\<lparr>pdbid := p, species := sp, refseq := rs\<rparr>) headers_in sequences_in
           = run env options0 headers_in sequences_in"
    unfolding run_def p1 p2 r filter_and_select_ignores
    by (simp cong: option.case_cong sum.case_cong prod.case_cong)
  have out: "out_i_ref out = i \<and> out_distmat out = None"
    if ok: "run env options0 headers_in sequences_in = Inr out" for out
  proof -
    from ok p1 obtain hf so sf r where
      rs: "resolve env options0 hf so sf = Inr r" and
      fs: "filter_and_select env options0 hf r = Inr out"
      by (auto simp: run_def split: option.splits sum.splits prod.splits)
    from rs have "resolve_index env options0 i hf so sf = Inr r"
      by (simp add: ri)
    from resolve_index_out [OF this] filter_and_select_out [OF fs]
    show ?thesis by simp
  qed
  have res: "resolve env (preamble options0) hf so sf
                  = Inr \<lparr>r_i_ref = i, r_sequences = sequences, r_ats = ats, r_dist_pdb = None\<rparr>"
    if "py_get hf i = Some h \<and> py_get so i = Some s_tmp \<and>
        index_positions env options0 so = Some ats_tmp \<and>
        makeATS env sf ats_tmp s_tmp i (truncate_flag options0) = Some (sequences, ats)"
    for hf so sf h s_tmp ats_tmp sequences ats
    using that resolve_index_completes [of hf i h so s_tmp env options0 ats_tmp sf sequences ats]
    by (simp add: p1 ri)
  have fin: "run env options0 headers_in sequences_in
                  = Inr \<lparr>out_alg = alg, out_hd = hd', out_ats = ats', out_distmat = None,
                         out_i_ref = i, out_effseqsprelimit = e,
                         out_Nseqprelimit = length alg1\<rparr>"
    if c: "ncols sequences_in = Some n \<and>
            remove_nonstandard headers_in sequences_in = Inr (hf, so) \<and>
            filterPos env so [1] 0.8 = Some (sf, K0) \<and>
            ncols sf = Some n' \<and>
            py_get hf i = Some h \<and> py_get so i = Some s_tmp \<and>
            index_positions env options0 so = Some ats_tmp \<and>
            makeATS env sf ats_tmp s_tmp i (truncate_flag options0) = Some (sequences, ats) \<and>
            ncols sequences = Some m \<and>
            parameters options0 = (p0, p1, p2, p3) \<and>
            filterSeq env sequences i p1 p2 p3 = Some (alg0, seqw0, seqkeep) \<and>
            reslice hf seqkeep = Some headers \<and>
            filterPos env alg0 seqw0 p0 = Some (alg1, K) \<and>
            reslice ats K = Some ats' \<and>
            effseqsprelimit_of env seqw0 = Some e \<and>
            ncols alg1 = Some n1 \<and>
            down_select env options0 alg1 headers seqw0 seqkeep i e = Inr (alg, hd')"
    for n hf so sf K0 n' h s_tmp ats_tmp sequences ats m p0 p1 p2 p3 alg0 seqw0 seqkeep
        headers alg1 K ats' e n1 alg hd'
  proof -
    let ?r = "\<lparr>r_i_ref = i, r_sequences = sequences, r_ats = ats, r_dist_pdb = None\<rparr>"
    from c have rs: "resolve env (preamble options0) hf so sf = Inr ?r"
      using res [of hf h so s_tmp ats_tmp sf sequences ats] by simp
    from c have c1: "ncols (r_sequences ?r) = Some m"
      and c2: "parameters options0 = (p0, p1, p2, p3)"
      and c3: "filterSeq env (r_sequences ?r) (r_i_ref ?r) p1 p2 p3 = Some (alg0, seqw0, seqkeep)"
      and c4: "reslice hf seqkeep = Some headers"
      and c5: "filterPos env alg0 seqw0 p0 = Some (alg1, K)"
      and c6: "reslice (r_ats ?r) K = Some ats'"
      and c7: "effseqsprelimit_of env seqw0 = Some e"
      and c8: "ncols alg1 = Some n1"
      and c9: "down_select env options0 alg1 headers seqw0 seqkeep (r_i_ref ?r) e = Inr (alg, hd')"
      by simp_all
    have "filter_and_select env options0 hf ?r
       = Inr \<lparr>out_alg = alg, out_hd = hd', out_ats = ats',
              out_distmat = distmat_of (r_dist_pdb ?r) K, out_i_ref = r_i_ref ?r,
              out_effseqsprelimit = e, out_Nseqprelimit = length alg1\<rparr>"
      by (rule filter_and_select_completes [OF c1 c2 c3 c4 c5 c6 c7 c8 c9])
    then have "filter_and_select env options0 hf ?r
       = Inr \<lparr>out_alg = alg, out_hd = hd', out_ats = ats', out_distmat = None,
              out_i_ref = i, out_effseqsprelimit = e, out_Nseqprelimit = length alg1\<rparr>"
      by (simp add: distmat_of_def)
    with c rs show ?thesis by (simp add: run_def p1)
  qed
  from same out res fin show ?thesis by blast
qed

theorem explicit_index_wins_witness:
  "run (no_collaborators
          \<lparr>makeATS := gapfree_makeATS, filterSeq := keep_all_seqs, filterPos := keep_all_pos,
           np_sum := exact_sum,
           pdbSeq := (\<lambda>pid chain. None),
           MSAsearch := (\<lambda>hd' algn q s. None),
           readAlg := (\<lambda>path. Some ([''ref''], [''AFCDE''])),
           chooseRefSeq := (\<lambda>algn. Some 2)\<rparr>)
       (default_options
          \<lparr>i_ref := Some 1, pdbid := Some ''1RX2'', species := Some ''Homo sapiens'',
           refseq := Some ''ref.fasta''\<rparr>)
       [''h0'', ''h1'', ''h2''] [''A-CDE'', ''AFCDE'', ''A-CD-'']
   = Inr \<lparr>out_alg = [''A-CDE'', ''AFCDE'', ''A-CD-''], out_hd = [''h0'', ''h1'', ''h2''],
          out_ats = [Num 0, Num 1, Num 2, Num 3, Num 4], out_distmat = None,
          out_i_ref = 1, out_effseqsprelimit = 3, out_Nseqprelimit = 3\<rparr> \<and>
   resolve (no_collaborators
          \<lparr>makeATS := gapfree_makeATS, filterSeq := keep_all_seqs, filterPos := keep_all_pos,
           np_sum := exact_sum\<rparr>)
       (preamble (default_options\<lparr>i_ref := Some 1\<rparr>))
       [''h0'', ''h1'', ''h2''] [''A-CDE'', ''AFCDE'', ''A-CD-''] [''A-CDE'', ''AFCDE'', ''A-CD-'']
   = Inr \<lparr>r_i_ref = 1, r_sequences = [''A-CDE'', ''AFCDE'', ''A-CD-''],
          r_ats = [Num 0, Num 1, Num 2, Num 3, Num 4], r_dist_pdb = None\<rparr>"
proof -
  let ?env = "no_collaborators
          \<lparr>makeATS := gapfree_makeATS, filterSeq := keep_all_seqs, filterPos := keep_all_pos,
           np_sum := exact_sum\<rparr>"
  let ?opts = "default_options\<lparr>i_ref := Some 1\<rparr>"
  let ?hs = "[''h0'', ''h1'', ''h2'']"
  let ?ss = "[''A-CDE'', ''AFCDE'', ''A-CD-'']"
  let ?ats = "[Num 0, Num 1, Num 2, Num 3, Num 4]"
  have h: "i_ref ?opts = Some 1" by simp
  note th = explicit_index_wins
    [OF h, where env = ?env and headers_in = ?hs and sequences_in = ?ss]
  have steps:
    "ncols ?ss = Some 5 \<and>
     remove_nonstandard ?hs ?ss = Inr (?hs, ?ss) \<and>
     filterPos ?env ?ss [1] 0.8 = Some (?ss, [0, 1, 2, 3, 4]) \<and>
     ncols ?ss = Some 5 \<and>
     py_get ?hs 1 = Some ''h1'' \<and> py_get ?ss 1 = Some ''AFCDE'' \<and>
     index_positions ?env ?opts ?ss = Some ?ats \<and>
     makeATS ?env ?ss ?ats ''AFCDE'' 1 (truncate_flag ?opts) = Some (?ss, ?ats) \<and>
     ncols ?ss = Some 5 \<and>
     parameters ?opts = (0.2, 0.2, 0.2, 0.8) \<and>
     filterSeq ?env ?ss 1 0.2 0.2 0.8 = Some (?ss, [1, 1, 1], [0, 1, 2]) \<and>
     reslice ?hs [0, 1, 2] = Some ?hs \<and>
     filterPos ?env ?ss [1, 1, 1] 0.2 = Some (?ss, [0, 1, 2, 3, 4]) \<and>
     reslice ?ats [0, 1, 2, 3, 4] = Some ?ats \<and>
     effseqsprelimit_of ?env [1, 1, 1] = Some 3 \<and>
     ncols ?ss = Some 5 \<and>
     down_select ?env ?opts ?ss ?hs [1, 1, 1] [0, 1, 2] 1 3 = Inr (?ss, ?hs)"
    by (simp add: remove_nonstandard_def standard_aa_def keep_all_pos_def keep_all_seqs_def
          default_options_def index_positions_def py_get_def range_labels_def
          gapfree_makeATS_def reslice_def down_select_def effseqsprelimit_of_def exact_sum_def
          py_int_def upt_rec)
  note run1 = th [THEN conjunct2, THEN conjunct2, THEN conjunct2, rule_format, OF steps]
  note same = th [THEN conjunct1]
  have res_steps:
    "py_get ?hs 1 = Some ''h1'' \<and> py_get ?ss 1 = Some ''AFCDE'' \<and>
     index_positions ?env ?opts ?ss = Some ?ats \<and>
     makeATS ?env ?ss ?ats ''AFCDE'' 1 (truncate_flag ?opts) = Some (?ss, ?ats)"
    using steps by (elim conjE) (intro conjI)
  note res1 = th [THEN conjunct2, THEN conjunct2, THEN conjunct1, rule_format, OF res_steps]
  from run1 have run0: "run ?env ?opts ?hs ?ss
      = Inr \<lparr>out_alg = ?ss, out_hd = ?hs, out_ats = ?ats, out_distmat = None,
             out_i_ref = 1, out_effseqsprelimit = 3, out_Nseqprelimit = 3\<rparr>"
    by simp
  show ?thesis
    by (intro conjI) (rule trans [OF same run0], rule res1)
qed

text \<open>
  Claim C9.  For all parsed inputs, \<open>merge_data\<close> returns exactly one tuple per frequency entry;
  entry \<open>i\<close> carries the position counter \<open>i + 1\<close>.  An entry whose reference is \<^verbatim>\<open>'X'\<close> is
  emitted as \<^verbatim>\<open>(i + 1, 'X', highest, freq, 'NA')\<close> and consumes no DSSP line; an entry that is the
  \<open>j\<close>-th one with a reference other than \<^verbatim>\<open>'X'\<close> (\<open>j\<close> counted from 0) takes its reference and
  its secondary structure from \<open>dssp_data[j]\<close> when \<open>j < len(dssp_data)\<close>, so the DSSP lines are
  consumed strictly in order.
\<close>

theorem merge_data_two_pointer:
  "length (merge_data freq_data dssp_data) = length freq_data \<and>
   (\<forall>i < length freq_data.
      fst (merge_data freq_data dssp_data ! i) = int i + 1 \<and>
      merge_data freq_data dssp_data ! i =
        (case freq_data ! i of (ref_aa_freq, highest_freq_aa, freq_val) \<Rightarrow>
           if ref_aa_freq = ''X'' then (int i + 1, ''X'', highest_freq_aa, freq_val, ''NA'')
           else if nonX_before freq_data i < length dssp_data
             then (case dssp_data ! nonX_before freq_data i of (_, dssp_ref, ss) \<Rightarrow>
                    (int i + 1, dssp_ref, highest_freq_aa, freq_val, ss))
             else (int i + 1, ref_aa_freq, highest_freq_aa, freq_val, ''NA'')))"
proof -
  obtain m j pc where st: "foldl (merge_step dssp_data) ([], 0, 1) freq_data = (m, j, pc)"
    by (cases "foldl (merge_step dssp_data) ([], 0, 1) freq_data") auto
  then have md: "merge_data freq_data dssp_data = m"
    by (simp add: merge_data_def)
  from merge_loop_invariant [OF st] have
    len: "length m = length freq_data" and
    at: "\<forall>i < length freq_data. m ! i = merged_at freq_data dssp_data i"
    by simp_all
  have "fst (merged_at freq_data dssp_data i) = int i + 1" for i
    by (simp add: merged_at_def split: prod.splits)
  with md len at show ?thesis
    by (simp add: merged_at_def)
qed

theorem merge_data_two_pointer_witness:
  "length (merge_data [(''A'', ''G'', 67 :: nat), (''X'', ''-'', 50), (''C'', ''C'', 90)]
                      [(10, ''M'', ''H''), (11, ''K'', ''C'')]) = 3 \<and>
   merge_data [(''A'', ''G'', 67 :: nat), (''X'', ''-'', 50), (''C'', ''C'', 90)]
              [(10, ''M'', ''H''), (11, ''K'', ''C'')] ! 2 = (3, ''K'', ''C'', 90, ''C'')"
proof -
  let ?f = "[(''A'', ''G'', 67 :: nat), (''X'', ''-'', 50), (''C'', ''C'', 90)]"
  let ?d = "[(10 :: int, ''M'', ''H''), (11, ''K'', ''C'')]"
  note spec = merge_data_two_pointer [of ?f ?d]
  from spec have len: "length (merge_data ?f ?d) = 3" by simp
  from spec have "(2::nat) < length ?f \<longrightarrow>
      merge_data ?f ?d ! 2 =
        (case ?f ! 2 of (ref_aa_freq, highest_freq_aa, freq_val) \<Rightarrow>
           if ref_aa_freq = ''X'' then (int 2 + 1, ''X'', highest_freq_aa, freq_val, ''NA'')
           else if nonX_before ?f 2 < length ?d
             then (case ?d ! nonX_before ?f 2 of (_, dssp_ref, ss) \<Rightarrow>
                    (int 2 + 1, dssp_ref, highest_freq_aa, freq_val, ss))
             else (int 2 + 1, ref_aa_freq, highest_freq_aa, freq_val, ''NA''))"
    by blast
  then have "merge_data ?f ?d ! 2 = (3, ''K'', ''C'', 90, ''C'')"
    by (simp add: nonX_before_def)
  with len show ?thesis by simp
qed

text \<open>
  Claim C10.  Lines 114--129 keep exactly the sequences made of the 20 standard amino-acid
  letters and the gap character, in order, each with its own header, and raise nothing when
  every sequence has a header.  A run that produces its outputs trims, resolves and filters
  this sanitized alignment; a reference index given by the user is an index into it, and the
  reference sequence it picks is one of the retained sequences.
\<close>

theorem nonstandard_sequences_removed:
  "(length sequences_in \<le> length headers_in \<longrightarrow>
      (\<exists>hf so. remove_nonstandard headers_in sequences_in = Inr (hf, so))) \<and>
   (\<forall>hf so. remove_nonstandard headers_in sequences_in = Inr (hf, so) \<longrightarrow>
      so = filter (list_all standard_aa) sequences_in \<and>
      hf = map fst (filter (\<lambda>p. list_all standard_aa (snd p)) (zip headers_in sequences_in)) \<and>
      length hf = length so \<and>
      list_all (list_all (\<lambda>aa. aa \<in> set ''ACDEFGHIKLMNPQRSTVWY-'')) so \<and>
      (\<forall>out. run env options0 headers_in sequences_in = Inr out \<longrightarrow>
         (\<exists>sf poskeep r.
            filterPos env so [1] 0.8 = Some (sf, poskeep) \<and>
            resolve env (preamble options0) hf so sf = Inr r \<and>
            filter_and_select env (preamble options0) hf r = Inr out \<and>
            (\<forall>i. i_ref options0 = Some i \<longrightarrow>
               r_i_ref r = i \<and>
               (\<exists>h s_tmp. py_get hf i = Some h \<and> py_get so i = Some s_tmp \<and>
                  list_all standard_aa s_tmp)))))"
proof (intro conjI allI impI)
  assume "length sequences_in \<le> length headers_in"
  then obtain a h where "remove_loop headers_in 0 sequences_in ([], []) = Inr (a, h)"
    using remove_loop_total [of sequences_in 0 headers_in "[]" "[]"] by auto
  then show "\<exists>hf so. remove_nonstandard headers_in sequences_in = Inr (hf, so)"
    by (simp add: remove_nonstandard_def)
next
  fix hf so
  assume rn: "remove_nonstandard headers_in sequences_in = Inr (hf, so)"
  note res = remove_nonstandard_result [OF rn]
  show "so = filter (list_all standard_aa) sequences_in" by (rule res(1))
  show "hf = map fst (filter (\<lambda>p. list_all standard_aa (snd p)) (zip headers_in sequences_in))"
    by (rule res(2))
  show "length hf = length so" by (rule res(3))
  have std: "list_all (list_all standard_aa) so"
    using res(1) by (simp add: list_all_iff)
  have "standard_aa = (\<lambda>aa. aa \<in> set ''ACDEFGHIKLMNPQRSTVWY-'')"
    by (rule ext) (simp only: standard_aa_def)
  with std show "list_all (list_all (\<lambda>aa. aa \<in> set ''ACDEFGHIKLMNPQRSTVWY-'')) so"
    by simp
  fix out
  assume run: "run env options0 headers_in sequences_in = Inr out"
  with rn obtain sf poskeep r where
    fp: "filterPos env so [1] 0.8 = Some (sf, poskeep)" and
    rv: "resolve env (preamble options0) hf so sf = Inr r" and
    fs: "filter_and_select env (preamble options0) hf r = Inr out"
    by (auto simp: run_def split: option.splits sum.splits)
  have "r_i_ref r = i \<and>
        (\<exists>h s_tmp. py_get hf i = Some h \<and> py_get so i = Some s_tmp \<and> list_all standard_aa s_tmp)"
    if i: "i_ref options0 = Some i" for i
  proof -
    from i have "preamble options0 = options0" by (simp add: preamble_def)
    with rv i have ri: "resolve_index env options0 i hf so sf = Inr r"
      by (simp add: resolve_def)
    then obtain h s_tmp where g: "py_get hf i = Some h" "py_get so i = Some s_tmp"
      and r: "r_i_ref r = i"
      by (auto simp: resolve_index_def split: option.splits)
    from py_get_mem [OF g(2)] std have "list_all standard_aa s_tmp"
      by (simp add: list_all_iff)
    with g r show ?thesis by blast
  qed
  with fp rv fs
  show "\<exists>sf poskeep r.
          filterPos env so [1] 0.8 = Some (sf, poskeep) \<and>
          resolve env (preamble options0) hf so sf = Inr r \<and>
          filter_and_select env (preamble options0) hf r = Inr out \<and>
          (\<forall>i. i_ref options0 = Some i \<longrightarrow>
             r_i_ref r = i \<and>
             (\<exists>h s_tmp. py_get hf i = Some h \<and> py_get so i = Some s_tmp \<and>
                list_all standard_aa s_tmp))"
    by blast
qed

theorem nonstandard_sequences_removed_witness:
  "remove_nonstandard [''h0'', ''h1'', ''h2''] [''AC-'', ''AXB'', ''DE-'']
     = Inr ([''h0'', ''h2''], [''AC-'', ''DE-'']) \<and>
   [''AC-'', ''DE-''] = filter (list_all standard_aa) [''AC-'', ''AXB'', ''DE-''] \<and>
   length [''h0'', ''h2''] = length [''AC-'', ''DE-''] \<and>
   list_all (list_all (\<lambda>aa. aa \<in> set ''ACDEFGHIKLMNPQRSTVWY-'')) [''AC-'', ''DE-'']"
  using nonstandard_sequences_removed
          [of "[''AC-'', ''AXB'', ''DE-'']" "[''h0'', ''h1'', ''h2'']" no_collaborators
              default_options]
        remove_nonstandard_example
  by blast

end
